theory Spec2Isabelle
  imports Main
begin

section \<open>Loan-request tickets: data model\<close>

text \<open>
  The tables of \<^verbatim>\<open>models/loanRequest.ts\<close> and \<^verbatim>\<open>models/user.ts\<close>, as lists of rows in
  table order. A uuid primary key is an opaque natural number, a serial user id and a
  JavaScript number are an \<open>int\<close>, a timestamp is a number of milliseconds. A nullable
  column is an \<open>option\<close>. The columns of a loan request that no handler below reads or
  changes after the insert (the requester snapshot and the remaining loan parameters)
  are left out of the row. The version column is a 32-bit integer
  (\<^verbatim>\<open>integer('version').notNull().default(1)\<close>): the counter itself is an \<open>int\<close>, and
  the statements that compute \<open>version + 1\<close> are refused beyond the column's range
  (see \<open>version_overflow\<close> below).
\<close>

type_synonym uuid = nat
type_synonym timestamp = int

text \<open>
  The status column is a varchar that the handlers only ever fill with these five
  values (\<open>'received'\<close> at creation, \<open>'under_review'\<close> on take and reassign, a value
  of the zod enum everywhere else).
\<close>

datatype status = Received | UnderReview | Contacted | Closed | Rejected

fun status_str :: "status \<Rightarrow> string" where
  "status_str Received = ''received''"
| "status_str UnderReview = ''under_review''"
| "status_str Contacted = ''contacted''"
| "status_str Closed = ''closed''"
| "status_str Rejected = ''rejected''"

text \<open>\<^verbatim>\<open>z.enum(['received', 'under_review', 'contacted', 'closed', 'rejected'])\<close>\<close>

definition parse_status :: "string \<Rightarrow> status option" where
  "parse_status s =
     (if s = ''received'' then Some Received
      else if s = ''under_review'' then Some UnderReview
      else if s = ''contacted'' then Some Contacted
      else if s = ''closed'' then Some Closed
      else if s = ''rejected'' then Some Rejected
      else None)"

record loan_request =
  lr_id :: uuid
  lr_userId :: int
  lr_propertyValue :: int
  lr_loanAmountNeeded :: int
  lr_status :: status
  lr_assigneeId :: "int option"
  lr_version :: int
  lr_priority :: "string option"
  lr_slaDueAt :: "timestamp option"
  lr_lastActivityAt :: "timestamp option"
  lr_isEscalated :: "bool option"
  lr_escalationReason :: "string option"
  lr_updatedAt :: timestamp
  lr_deletedAt :: "timestamp option"

record loan_request_assignment =
  la_loanRequestId :: uuid
  la_assignedById :: int
  la_assigneeId :: int
  la_comment :: "string option"

record loan_request_audit_log =
  al_loanRequestId :: uuid
  al_actorId :: int
  al_action :: string
  al_oldValue :: "string option"
  al_newValue :: "string option"
  al_comment :: "string option"

record user =
  u_id :: int
  u_name :: "string option"
  u_role :: "string option"
  u_department :: "string option"
  u_active :: "bool option"
  u_deleted :: "bool option"

record ticket_db =
  loanRequests :: "loan_request list"
  loanRequestAssignments :: "loan_request_assignment list"
  loanRequestAuditLogs :: "loan_request_audit_log list"
  users :: "user list"
  ticket_next_id :: uuid

text \<open>The JSON responses of the ticket handlers, with their HTTP status.\<close>

datatype ticket_response =
    TicketOk loan_request
  | BulkOk nat
  | TicketCreated uuid status
  | BadRequest string
  | BadTransition string "status list"
  | NotFound string
  | TicketConflict string "loan_request option"
  | RateLimited string
  | ServerError string

fun http_status :: "ticket_response \<Rightarrow> nat" where
  "http_status (TicketOk _) = 200"
| "http_status (BulkOk _) = 200"
| "http_status (TicketCreated _ _) = 201"
| "http_status (BadRequest _) = 400"
| "http_status (BadTransition _ _) = 400"
| "http_status (NotFound _) = 404"
| "http_status (TicketConflict _ _) = 409"
| "http_status (RateLimited _) = 429"
| "http_status (ServerError _) = 500"

section \<open>JavaScript helpers\<close>

text \<open>\<open>Number.prototype.toString\<close> on an integer.\<close>

fun show_nat :: "nat \<Rightarrow> string" where
  "show_nat n =
     (if n < 10 then [char_of (48 + n)]
      else show_nat (n div 10) @ [char_of (48 + n mod 10)])"

declare show_nat.simps [simp del]

definition show_int :: "int \<Rightarrow> string" where
  "show_int i = (if i < 0 then CHR ''-'' # show_nat (nat (- i)) else show_nat (nat i))"

text \<open>\<open>s || null\<close> on an optional string: the empty string is falsy.\<close>

definition or_null :: "string option \<Rightarrow> string option" where
  "or_null s = (case s of None \<Rightarrow> None | Some t \<Rightarrow> if t = [] then None else Some t)"

text \<open>Truthiness of an optional string and of an optional number.\<close>

definition truthy_str :: "string option \<Rightarrow> bool" where
  "truthy_str s = (case s of None \<Rightarrow> False | Some t \<Rightarrow> t \<noteq> [])"

definition truthy_num :: "int option \<Rightarrow> bool" where
  "truthy_num n = (case n of None \<Rightarrow> False | Some i \<Rightarrow> i \<noteq> 0)"

section \<open>Loan-request tickets: shared pieces\<close>

text \<open>\<^verbatim>\<open>ALLOWED_STATUS_TRANSITIONS[existing.status] || []\<close>\<close>

fun ALLOWED_STATUS_TRANSITIONS :: "status \<Rightarrow> status list" where
  "ALLOWED_STATUS_TRANSITIONS Received = [UnderReview, Rejected]"
| "ALLOWED_STATUS_TRANSITIONS UnderReview = [Contacted, Rejected]"
| "ALLOWED_STATUS_TRANSITIONS Contacted = [Closed, Rejected]"
| "ALLOWED_STATUS_TRANSITIONS Closed = []"
| "ALLOWED_STATUS_TRANSITIONS Rejected = []"

definition createAuditLog ::
  "uuid \<Rightarrow> int \<Rightarrow> string \<Rightarrow> string option \<Rightarrow> string option \<Rightarrow> string option
     \<Rightarrow> ticket_db \<Rightarrow> ticket_db" where
  "createAuditLog loanRequestId actorId action oldValue newValue comment db =
     db\<lparr>loanRequestAuditLogs := loanRequestAuditLogs db @
        [\<lparr>al_loanRequestId = loanRequestId, al_actorId = actorId, al_action = action,
          al_oldValue = or_null oldValue, al_newValue = or_null newValue,
          al_comment = or_null comment\<rparr>]\<rparr>"

text \<open>
  \<^verbatim>\<open>select().from(loanRequests).where(and(eq(id), isNull(deletedAt))).limit(1)\<close> and the
  re-read \<^verbatim>\<open>where(eq(id)).limit(1)\<close> of the conflict branch.
\<close>

definition select_live :: "ticket_db \<Rightarrow> uuid \<Rightarrow> loan_request option" where
  "select_live db i = find (\<lambda>r. lr_id r = i \<and> lr_deletedAt r = None) (loanRequests db)"

definition select_by_id :: "ticket_db \<Rightarrow> uuid \<Rightarrow> loan_request option" where
  "select_by_id db i = find (\<lambda>r. lr_id r = i) (loanRequests db)"

text \<open>
  The conditional update \<^verbatim>\<open>update(loanRequests).set(...).where(and(eq(id), eq(version,
  existing.version))).returning()\<close>: \<open>set\<close> is applied to every matching row, and the
  updated rows are returned.
\<close>

definition update_where ::
  "(loan_request \<Rightarrow> bool) \<Rightarrow> (loan_request \<Rightarrow> loan_request) \<Rightarrow> loan_request list
     \<Rightarrow> loan_request list" where
  "update_where P f rows = map (\<lambda>r. if P r then f r else r) rows"

definition returning ::
  "(loan_request \<Rightarrow> bool) \<Rightarrow> (loan_request \<Rightarrow> loan_request) \<Rightarrow> loan_request list
     \<Rightarrow> loan_request list" where
  "returning P f rows = map f (filter P rows)"

definition at_version :: "uuid \<Rightarrow> int \<Rightarrow> loan_request \<Rightarrow> bool" where
  "at_version i v r = (lr_id r = i \<and> lr_version r = v)"

text \<open>
  The set clause \<^verbatim>\<open>version: sql`${loanRequests.version} + 1`\<close> is computed by the
  database on a 32-bit column: when a row that the statement matches stands at
  2147483647 the addition raises (integer out of range), the statement writes nothing,
  and the catch block of the handler answers 500. The set clauses below that add one
  to the version (\<open>take_set\<close>, \<open>status_set\<close>, \<open>reassign_set\<close>, \<open>escalate_set\<close>) are
  applied only by a statement that is not refused.
\<close>

definition int4_max :: int where
  "int4_max = 2147483647"

definition version_overflow :: "(loan_request \<Rightarrow> bool) \<Rightarrow> loan_request list \<Rightarrow> bool" where
  "version_overflow P rows = list_ex (\<lambda>r. P r \<and> int4_max < lr_version r + 1) rows"

section \<open>Finance employee operations\<close>

text \<open>\<^verbatim>\<open>takeLoanRequest\<close> (financeLoanRequestController.ts).\<close>

definition take_set :: "int \<Rightarrow> timestamp \<Rightarrow> loan_request \<Rightarrow> loan_request" where
  "take_set financeId now r =
     r\<lparr>lr_assigneeId := Some financeId, lr_status := UnderReview,
       lr_lastActivityAt := Some now, lr_version := lr_version r + 1, lr_updatedAt := now\<rparr>"

definition assignee_name :: "ticket_db \<Rightarrow> int \<Rightarrow> string" where
  "assignee_name db a =
     (case find (\<lambda>u. u_id u = a) (users db) of
        None \<Rightarrow> ''another user''
      | Some u \<Rightarrow> (if truthy_str (u_name u) then the (u_name u) else ''another user''))"

definition takeLoanRequest ::
  "ticket_db \<Rightarrow> timestamp \<Rightarrow> uuid \<Rightarrow> int \<Rightarrow> ticket_response \<times> ticket_db" where
  "takeLoanRequest db now i financeId =
     (case select_live db i of
        None \<Rightarrow> (NotFound ''Loan request not found'', db)
      | Some existing \<Rightarrow>
          if truthy_num (lr_assigneeId existing) \<and> lr_assigneeId existing \<noteq> Some financeId
          then (TicketConflict
                  (''Already assigned to '' @ assignee_name db (the (lr_assigneeId existing)))
                  (Some existing), db)
          else if version_overflow (at_version i (lr_version existing)) (loanRequests db)
          then (ServerError ''Failed to take loan request'', db)
          else
            (case returning (at_version i (lr_version existing)) (take_set financeId now)
                    (loanRequests db) of
               [] \<Rightarrow> (TicketConflict ''Loan request was modified by another user''
                        (select_by_id db i), db)
             | updated # _ \<Rightarrow>
                 let db1 = db\<lparr>loanRequests :=
                             update_where (at_version i (lr_version existing))
                               (take_set financeId now) (loanRequests db)\<rparr>;
                     db2 = db1\<lparr>loanRequestAssignments := loanRequestAssignments db1 @
                             [\<lparr>la_loanRequestId = i, la_assignedById = financeId,
                               la_assigneeId = financeId, la_comment = Some ''Self-assigned''\<rparr>]\<rparr>;
                     db3 = createAuditLog i financeId ''assigned'' None
                             (Some (show_int financeId)) (Some ''Self-assigned'') db2;
                     db4 = createAuditLog i financeId ''status_change''
                             (Some (status_str (lr_status existing)))
                             (Some ''under_review'') None db3
                 in (TicketOk updated, db4)))"

text \<open>
  \<^verbatim>\<open>updateLoanRequestStatus\<close>, in the two phases its awaits separate: the checks up to and
  including the read of the current row, and the conditional write that uses the
  version that read observed. The request body is the raw status string and the
  optional comment (\<open>z.string().max(1000).optional()\<close>).
\<close>

definition status_set :: "status \<Rightarrow> timestamp \<Rightarrow> loan_request \<Rightarrow> loan_request" where
  "status_set st now r =
     r\<lparr>lr_status := st, lr_lastActivityAt := Some now,
       lr_version := lr_version r + 1, lr_updatedAt := now\<rparr>"

definition comment_ok :: "string option \<Rightarrow> bool" where
  "comment_ok c = (case c of None \<Rightarrow> True | Some t \<Rightarrow> length t \<le> 1000)"

definition updateLoanRequestStatus_read ::
  "ticket_db \<Rightarrow> uuid \<Rightarrow> string \<Rightarrow> string option \<Rightarrow> ticket_response + (status \<times> loan_request)" where
  "updateLoanRequestStatus_read db i status_in comment =
     (case parse_status status_in of
        None \<Rightarrow> Inl (BadRequest ''Invalid enum value'')
      | Some st \<Rightarrow>
          if \<not> comment_ok comment then Inl (BadRequest ''String must contain at most 1000 character(s)'')
          else if (st = Closed \<or> st = Rejected) \<and> \<not> truthy_str comment
          then Inl (BadRequest ''Comment is required for closed or rejected status'')
          else
            (case select_live db i of
               None \<Rightarrow> Inl (NotFound ''Loan request not found'')
             | Some existing \<Rightarrow>
                 if st \<notin> set (ALLOWED_STATUS_TRANSITIONS (lr_status existing))
                 then Inl (BadTransition
                        (''Cannot transition from '' @ status_str (lr_status existing) @
                         '' to '' @ status_str st)
                        (ALLOWED_STATUS_TRANSITIONS (lr_status existing)))
                 else Inr (st, existing)))"

definition updateLoanRequestStatus_write ::
  "ticket_db \<Rightarrow> timestamp \<Rightarrow> uuid \<Rightarrow> int \<Rightarrow> string option \<Rightarrow> status \<times> loan_request
     \<Rightarrow> ticket_response \<times> ticket_db" where
  "updateLoanRequestStatus_write db now i financeId comment obs =
     (case obs of (st, existing) \<Rightarrow>
        if version_overflow (at_version i (lr_version existing)) (loanRequests db)
        then (ServerError ''Failed to update status'', db)
        else
          (case returning (at_version i (lr_version existing)) (status_set st now)
                  (loanRequests db) of
             [] \<Rightarrow> (TicketConflict ''Loan request was modified by another user''
                      (select_by_id db i), db)
           | updated # _ \<Rightarrow>
               let db1 = db\<lparr>loanRequests :=
                           update_where (at_version i (lr_version existing))
                             (status_set st now) (loanRequests db)\<rparr>
               in (TicketOk updated,
                   createAuditLog i financeId ''status_change''
                     (Some (status_str (lr_status existing))) (Some (status_str st)) comment
                     db1)))"

definition updateLoanRequestStatus ::
  "ticket_db \<Rightarrow> timestamp \<Rightarrow> uuid \<Rightarrow> int \<Rightarrow> string \<Rightarrow> string option
     \<Rightarrow> ticket_response \<times> ticket_db" where
  "updateLoanRequestStatus db now i financeId status_in comment =
     (case updateLoanRequestStatus_read db i status_in comment of
        Inl resp \<Rightarrow> (resp, db)
      | Inr obs \<Rightarrow> updateLoanRequestStatus_write db now i financeId comment obs)"

section \<open>Admin operations\<close>

text \<open>
  The auto-assign query of \<^verbatim>\<open>reassignLoanRequest\<close> and \<^verbatim>\<open>bulkReassignLoanRequests\<close>: the
  active employees of the Finance department, left-joined with their open tickets,
  ordered by that count, limit 1. Among equally loaded employees the database may
  return any; the model takes the first in table order.
\<close>

definition open_tickets :: "ticket_db \<Rightarrow> int \<Rightarrow> nat" where
  "open_tickets db uid =
     length (filter (\<lambda>r. lr_assigneeId r = Some uid \<and> lr_deletedAt r = None \<and>
                          lr_status r \<noteq> Closed \<and> lr_status r \<noteq> Rejected) (loanRequests db))"

definition is_finance_employee :: "user \<Rightarrow> bool" where
  "is_finance_employee u =
     (u_role u = Some ''employee'' \<and> u_department u = Some ''Finance'' \<and> u_active u = Some True)"

definition least_busy :: "ticket_db \<Rightarrow> user option" where
  "least_busy db =
     (case filter is_finance_employee (users db) of
        [] \<Rightarrow> None
      | u # us \<Rightarrow>
          Some (fold (\<lambda>v best. if open_tickets db (u_id v) < open_tickets db (u_id best)
                               then v else best) us u))"

definition reassign_set :: "int \<Rightarrow> timestamp \<Rightarrow> loan_request \<Rightarrow> loan_request \<Rightarrow> loan_request" where
  "reassign_set target now existing r =
     r\<lparr>lr_assigneeId := Some target,
       lr_status := (if lr_status existing = Received then UnderReview else lr_status existing),
       lr_lastActivityAt := Some now, lr_version := lr_version r + 1, lr_updatedAt := now\<rparr>"

definition reassign_comment_ok :: "string option \<Rightarrow> bool" where
  "reassign_comment_ok c = (case c of None \<Rightarrow> True | Some t \<Rightarrow> length t \<le> 500)"

definition reassignLoanRequest ::
  "ticket_db \<Rightarrow> timestamp \<Rightarrow> uuid \<Rightarrow> int \<Rightarrow> int option \<Rightarrow> string option \<Rightarrow> bool
     \<Rightarrow> ticket_response \<times> ticket_db" where
  "reassignLoanRequest db now i adminId assigneeId comment autoAssign =
     (if \<not> reassign_comment_ok comment
      then (BadRequest ''String must contain at most 500 character(s)'', db)
      else if \<not> truthy_num assigneeId \<and> \<not> autoAssign
      then (BadRequest ''assigneeId or autoAssign required'', db)
      else
        (case select_live db i of
           None \<Rightarrow> (NotFound ''Loan request not found'', db)
         | Some existing \<Rightarrow>
             (case (if autoAssign then map_option u_id (least_busy db) else assigneeId) of
                None \<Rightarrow> (BadRequest ''No active finance employees available'', db)
              | Some target \<Rightarrow>
                  (case find (\<lambda>u. u_id u = target \<and> is_finance_employee u) (users db) of
                     None \<Rightarrow> (BadRequest ''Invalid assignee'', db)
                   | Some assignee \<Rightarrow>
                       if version_overflow (at_version i (lr_version existing)) (loanRequests db)
                       then (ServerError ''Failed to reassign'', db)
                       else
                         (case returning (at_version i (lr_version existing))
                                 (reassign_set target now existing) (loanRequests db) of
                            [] \<Rightarrow> (TicketConflict ''Loan request was modified''
                                     (select_by_id db i), db)
                          | updated # _ \<Rightarrow>
                              let db1 = db\<lparr>loanRequests :=
                                          update_where (at_version i (lr_version existing))
                                            (reassign_set target now existing) (loanRequests db)\<rparr>;
                                  db2 = db1\<lparr>loanRequestAssignments := loanRequestAssignments db1 @
                                          [\<lparr>la_loanRequestId = i, la_assignedById = adminId,
                                            la_assigneeId = target,
                                            la_comment =
                                              Some (if truthy_str comment then the comment
                                                    else if autoAssign then ''Auto-assigned''
                                                    else ''Reassigned by admin'')\<rparr>]\<rparr>
                              in (TicketOk updated,
                                  createAuditLog i adminId ''reassigned''
                                    (map_option show_int (lr_assigneeId existing))
                                    (Some (show_int target)) comment db2))))))"

text \<open>
  The bulk variants: one unconditional update of every live row whose id is in the
  list, then one assignment record and one audit entry for each updated row.
\<close>

definition in_bulk :: "uuid list \<Rightarrow> loan_request \<Rightarrow> bool" where
  "in_bulk ids r = (lr_id r \<in> set ids \<and> lr_deletedAt r = None)"

definition bulk_ids_ok :: "uuid list \<Rightarrow> bool" where
  "bulk_ids_ok ids = (1 \<le> length ids \<and> length ids \<le> 100)"

definition bulk_reassign_set :: "int option \<Rightarrow> timestamp \<Rightarrow> loan_request \<Rightarrow> loan_request" where
  "bulk_reassign_set target now r =
     r\<lparr>lr_assigneeId := target, lr_lastActivityAt := Some now, lr_updatedAt := now\<rparr>"

definition bulk_reassign_log :: "int \<Rightarrow> int \<Rightarrow> ticket_db \<Rightarrow> loan_request \<Rightarrow> ticket_db" where
  "bulk_reassign_log adminId target db ticket =
     createAuditLog (lr_id ticket) adminId ''bulk_reassigned'' None (Some (show_int target)) None
       (db\<lparr>loanRequestAssignments := loanRequestAssignments db @
          [\<lparr>la_loanRequestId = lr_id ticket, la_assignedById = adminId,
            la_assigneeId = target, la_comment = Some ''Bulk reassigned''\<rparr>]\<rparr>)"

definition bulkReassignLoanRequests ::
  "ticket_db \<Rightarrow> timestamp \<Rightarrow> int \<Rightarrow> uuid list \<Rightarrow> int option \<Rightarrow> bool
     \<Rightarrow> ticket_response \<times> ticket_db" where
  "bulkReassignLoanRequests db now adminId ids assigneeId autoAssign =
     (if \<not> bulk_ids_ok ids then (BadRequest ''Invalid ids'', db)
      else if \<not> truthy_num assigneeId \<and> \<not> autoAssign
      then (BadRequest ''assigneeId or autoAssign required'', db)
      else
        (case (if autoAssign then map_option u_id (least_busy db) else assigneeId) of
           None \<Rightarrow> (BadRequest ''No active finance employees'', db)
         | Some target \<Rightarrow>
             let updated = returning (in_bulk ids) (bulk_reassign_set (Some target) now)
                             (loanRequests db);
                 db1 = db\<lparr>loanRequests :=
                         update_where (in_bulk ids) (bulk_reassign_set (Some target) now)
                           (loanRequests db)\<rparr>
             in (BulkOk (length updated),
                 foldl (bulk_reassign_log adminId target) db1 updated)))"

definition reason_ok :: "string \<Rightarrow> bool" where
  "reason_ok reason = (10 \<le> length reason \<and> length reason \<le> 500)"

definition escalate_set :: "string \<Rightarrow> timestamp \<Rightarrow> loan_request \<Rightarrow> loan_request" where
  "escalate_set reason now r =
     r\<lparr>lr_isEscalated := Some True, lr_escalationReason := Some reason,
       lr_priority := Some ''high'', lr_lastActivityAt := Some now,
       lr_version := lr_version r + 1, lr_updatedAt := now\<rparr>"

definition escalateLoanRequest ::
  "ticket_db \<Rightarrow> timestamp \<Rightarrow> uuid \<Rightarrow> int \<Rightarrow> string \<Rightarrow> ticket_response \<times> ticket_db" where
  "escalateLoanRequest db now i adminId reason =
     (if \<not> reason_ok reason then (BadRequest ''Invalid reason'', db)
      else
        (case select_live db i of
           None \<Rightarrow> (NotFound ''Loan request not found'', db)
         | Some existing \<Rightarrow>
             if version_overflow (at_version i (lr_version existing)) (loanRequests db)
             then (ServerError ''Failed to escalate'', db)
             else
               (case returning (at_version i (lr_version existing)) (escalate_set reason now)
                       (loanRequests db) of
                  [] \<Rightarrow> (TicketConflict ''Loan request was modified'' (select_by_id db i), db)
                | updated # _ \<Rightarrow>
                    let db1 = db\<lparr>loanRequests :=
                                update_where (at_version i (lr_version existing))
                                  (escalate_set reason now) (loanRequests db)\<rparr>
                    in (TicketOk updated,
                        createAuditLog i adminId ''escalated'' None (Some ''high'') (Some reason)
                          db1))))"

definition bulk_escalate_set :: "string \<Rightarrow> timestamp \<Rightarrow> loan_request \<Rightarrow> loan_request" where
  "bulk_escalate_set reason now r =
     r\<lparr>lr_isEscalated := Some True, lr_escalationReason := Some reason,
       lr_priority := Some ''high'', lr_lastActivityAt := Some now, lr_updatedAt := now\<rparr>"

definition bulk_escalate_log :: "int \<Rightarrow> string \<Rightarrow> ticket_db \<Rightarrow> loan_request \<Rightarrow> ticket_db" where
  "bulk_escalate_log adminId reason db ticket =
     createAuditLog (lr_id ticket) adminId ''bulk_escalated'' None (Some ''high'') (Some reason) db"

definition bulkEscalateLoanRequests ::
  "ticket_db \<Rightarrow> timestamp \<Rightarrow> int \<Rightarrow> uuid list \<Rightarrow> string \<Rightarrow> ticket_response \<times> ticket_db" where
  "bulkEscalateLoanRequests db now adminId ids reason =
     (if \<not> bulk_ids_ok ids then (BadRequest ''Invalid ids'', db)
      else if \<not> reason_ok reason then (BadRequest ''Invalid reason'', db)
      else
        let updated = returning (in_bulk ids) (bulk_escalate_set reason now) (loanRequests db);
            db1 = db\<lparr>loanRequests :=
                    update_where (in_bulk ids) (bulk_escalate_set reason now) (loanRequests db)\<rparr>
        in (BulkOk (length updated), foldl (bulk_escalate_log adminId reason) db1 updated))"

text \<open>\<^verbatim>\<open>changeAdminLoanRequestStatus\<close> (adminLoanRequestController.ts).\<close>

definition changeAdminLoanRequestStatus ::
  "ticket_db \<Rightarrow> timestamp \<Rightarrow> uuid \<Rightarrow> int \<Rightarrow> string \<Rightarrow> string option
     \<Rightarrow> ticket_response \<times> ticket_db" where
  "changeAdminLoanRequestStatus db now i adminId status_in comment =
     (case parse_status status_in of
        None \<Rightarrow> (BadRequest ''Invalid enum value'', db)
      | Some st \<Rightarrow>
          if \<not> comment_ok comment
          then (BadRequest ''String must contain at most 1000 character(s)'', db)
          else if (st = Closed \<or> st = Rejected) \<and> \<not> truthy_str comment
          then (BadRequest ''Comment required for close/reject'', db)
          else
            (case select_live db i of
               None \<Rightarrow> (NotFound ''Loan request not found'', db)
             | Some existing \<Rightarrow>
                 if version_overflow (at_version i (lr_version existing)) (loanRequests db)
                 then (ServerError ''Failed to change status'', db)
                 else
                   (case returning (at_version i (lr_version existing)) (status_set st now)
                           (loanRequests db) of
                      [] \<Rightarrow> (TicketConflict ''Loan request was modified'' (select_by_id db i), db)
                    | updated # _ \<Rightarrow>
                        let db1 = db\<lparr>loanRequests :=
                                    update_where (at_version i (lr_version existing))
                                      (status_set st now) (loanRequests db)\<rparr>
                        in (TicketOk updated,
                            createAuditLog i adminId ''status_change''
                              (Some (status_str (lr_status existing))) (Some (status_str st))
                              comment db1))))"

section \<open>Customer operation: creating a loan request\<close>















section \<open>Pending changes: data model\<close>

text \<open>
  A JSON value as the payloads of this application use them: the property and banner
  fields are strings, numbers, booleans and arrays of strings. A payload is a JSON
  object, kept as the list of its entries in key order.
\<close>

datatype jval = JNull | JBool bool | JNum int | JStr string | JArr "string list"

type_synonym payload = "(string \<times> jval) list"

text \<open>Truthiness and \<open>toString\<close> of such a value; \<open>Array.prototype.join\<close>.\<close>

fun truthy :: "jval \<Rightarrow> bool" where
  "truthy JNull = False"
| "truthy (JBool b) = b"
| "truthy (JNum n) = (n \<noteq> 0)"
| "truthy (JStr s) = (s \<noteq> [])"
| "truthy (JArr xs) = True"

fun join :: "string \<Rightarrow> string list \<Rightarrow> string" where
  "join sep [] = []"
| "join sep [x] = x"
| "join sep (x # y # ys) = x @ sep @ join sep (y # ys)"

fun js_toString :: "jval \<Rightarrow> string" where
  "js_toString JNull = ''null''"
| "js_toString (JBool b) = (if b then ''true'' else ''false'')"
| "js_toString (JNum n) = show_int n"
| "js_toString (JStr s) = s"
| "js_toString (JArr xs) = join '','' xs"

text \<open>\<open>{...obj, k: v}\<close>\<close>

definition obj_set :: "string \<Rightarrow> jval \<Rightarrow> payload \<Rightarrow> payload" where
  "obj_set k v obj = filter (\<lambda>e. fst e \<noteq> k) obj @ [(k, v)]"

text \<open>
  A canonical row (a property or a banner) is its id and the value of every other
  column, \<open>JNull\<close> for SQL NULL. \<open>set\<close> writes the entries of an object that name a
  column of the table and ignores the others; a payload is taken not to name the id
  column. Timestamps are stored as numbers.
\<close>

record entity =
  e_id :: uuid
  e_cols :: "string \<Rightarrow> jval"

definition property_columns :: "string list" where
  "property_columns =
     [''title'', ''location'', ''price'', ''images'', ''gallery'', ''description'', ''features'',
      ''amenities'', ''categories'', ''brochureUrl'', ''map'', ''website'', ''type'',
      ''assignedEmployeeId'', ''assignedAgentId'', ''createdByAdminId'', ''createdByEmployeeId'',
      ''deleted'', ''deletedAt'', ''deletedByAdminId'', ''createdAt'', ''updatedAt'']"

definition banner_columns :: "string list" where
  "banner_columns =
     [''imageUrl'', ''title'', ''subtitle'', ''targetRole'', ''isActive'', ''displayOrder'',
      ''createdAt'', ''updatedAt'']"

definition row_set :: "string list \<Rightarrow> payload \<Rightarrow> (string \<Rightarrow> jval) \<Rightarrow> (string \<Rightarrow> jval)" where
  "row_set cols obj r =
     (\<lambda>c. if c \<in> set cols then (case map_of obj c of Some v \<Rightarrow> v | None \<Rightarrow> r c) else r c)"

text \<open>\<open>set(oldRow)\<close> with a row read by \<open>select()\<close>: every column is written.\<close>

definition row_restore :: "string list \<Rightarrow> (string \<Rightarrow> jval) \<Rightarrow> (string \<Rightarrow> jval) \<Rightarrow> (string \<Rightarrow> jval)" where
  "row_restore cols old r = (\<lambda>c. if c \<in> set cols then old c else r c)"

text \<open>The column defaults of \<^verbatim>\<open>models/property.ts\<close> and \<^verbatim>\<open>models/banner.ts\<close>.\<close>

definition property_defaults :: "timestamp \<Rightarrow> (string \<Rightarrow> jval)" where
  "property_defaults now =
     (\<lambda>c. if c \<in> set [''images'', ''gallery'', ''features'', ''amenities'', ''categories'']
            then JArr []
          else if c = ''type'' then JStr ''Featured''
          else if c = ''deleted'' then JBool False
          else if c = ''createdAt'' \<or> c = ''updatedAt'' then JNum now
          else JNull)"

definition banner_defaults :: "timestamp \<Rightarrow> (string \<Rightarrow> jval)" where
  "banner_defaults now =
     (\<lambda>c. if c = ''targetRole'' then JStr ''All''
          else if c = ''isActive'' then JBool True
          else if c = ''displayOrder'' then JNum 0
          else if c = ''createdAt'' \<or> c = ''updatedAt'' then JNum now
          else JNull)"

text \<open>
  The status column of a pending change is a text that the handlers only ever fill
  with these five values. Every insert supplies the proposer.
\<close>

datatype pc_status = Draft | Pending | NeedsRevision | Approved | ChangeRejected

record pending_change =
  pc_id :: uuid
  pc_propertyId :: "uuid option"
  pc_proposerId :: int
  pc_proposedPayload :: payload
  pc_diffSummary :: "payload option"
  pc_status :: pc_status
  pc_reason :: "string option"
  pc_isDraft :: bool
  pc_createdAt :: timestamp
  pc_reviewedAt :: "timestamp option"
  pc_reviewedByAdminId :: "int option"

record banner_change =
  bc_id :: uuid
  bc_bannerId :: "uuid option"
  bc_proposerId :: int
  bc_proposedPayload :: payload
  bc_status :: pc_status
  bc_reason :: "string option"
  bc_reviewedAt :: "timestamp option"
  bc_reviewedByAdminId :: "int option"

record upload =
  up_id :: uuid
  up_ownerId :: int
  up_status :: "string option"
  up_referencedByChangeId :: "uuid option"

record idempotency =
  ik_idempotencyKey :: string
  ik_changeId :: uuid

record employee_assignment =
  ea_propertyId :: uuid
  ea_employeeId :: int

record pc_db =
  properties :: "entity list"
  banners :: "entity list"
  propertyPendingChanges :: "pending_change list"
  bannerPendingChanges :: "banner_change list"
  uploads :: "upload list"
  propertyPendingChangesIdempotency :: "idempotency list"
  propertyEmployeeAssignments :: "employee_assignment list"
  adminAuditLogs :: "(int \<times> string) list"
  pc_next_id :: uuid

text \<open>The responses of the pending-change handlers.\<close>

datatype pc_response =
    ChangeCreated uuid pc_status timestamp
  | ChangeReplay uuid pc_status timestamp
  | Success
  | EntityJson entity
  | Failure nat string
  | PendingConflict string uuid string

fun pc_http_status :: "pc_response \<Rightarrow> nat" where
  "pc_http_status (ChangeCreated _ _ _) = 201"
| "pc_http_status (ChangeReplay _ _ _) = 200"
| "pc_http_status Success = 200"
| "pc_http_status (EntityJson _) = 200"
| "pc_http_status (Failure code _) = code"
| "pc_http_status (PendingConflict _ _ _) = 409"

section \<open>Employee operations on property changes\<close>

text \<open>
  The body of \<^verbatim>\<open>submitPendingChange\<close> as \<^verbatim>\<open>pendingChangeSchema\<close> parsed it (of an uploaded
  asset only its \<open>uploadId\<close> is used); a body that does not parse is answered 400 before
  anything is read. An idempotency key is the text of a uuid (the body's key is checked
  by \<^verbatim>\<open>z.string().uuid()\<close>, and the ledger's key column is of type uuid), kept as the
  string the request carries.
\<close>

record submit_body =
  sb_proposed_payload :: payload
  sb_diff_summary :: "payload option"
  sb_uploadedAssets :: "uuid list option"
  sb_idempotencyKey :: "string option"
  sb_isDraft :: bool

definition ALLOWED_EMPLOYEE_FIELDS :: "string list" where
  "ALLOWED_EMPLOYEE_FIELDS =
     [''title'', ''location'', ''price'', ''type'', ''description'', ''images'', ''gallery'',
      ''features'', ''amenities'', ''categories'', ''brochureUrl'', ''map'', ''website'']"

text \<open>\<^verbatim>\<open>data.idempotencyKey || req.headers['idempotency-key']\<close>, and whether it is truthy.\<close>

definition effective_key :: "submit_body \<Rightarrow> string option \<Rightarrow> string option" where
  "effective_key body header =
     (if truthy_str (sb_idempotencyKey body) then sb_idempotencyKey body
      else if truthy_str header then header else None)"

text \<open>\<^verbatim>\<open>data.uploadedAssets && data.uploadedAssets.length > 0\<close>, then the ids.\<close>

definition upload_ids :: "submit_body \<Rightarrow> uuid list" where
  "upload_ids body = (case sb_uploadedAssets body of None \<Rightarrow> [] | Some ids \<Rightarrow> ids)"

text \<open>\<^verbatim>\<open>(existingChange.proposedPayload as any)?.title || 'this property'\<close>\<close>

definition display_title :: "payload \<Rightarrow> string" where
  "display_title p =
     (case map_of p ''title'' of
        None \<Rightarrow> ''this property''
      | Some v \<Rightarrow> if truthy v then js_toString v else ''this property'')"

definition conflict_response :: "pending_change \<Rightarrow> pc_response" where
  "conflict_response existingChange =
     PendingConflict
       (''There is already a pending change for '' @
        display_title (pc_proposedPayload existingChange) @
        '' under review. Please withdraw the existing pending change before submitting a new one.'')
       (pc_id existingChange) (display_title (pc_proposedPayload existingChange))"

text \<open>The live pending change of a proposer for a property, as both handlers query it.\<close>

definition is_live :: "uuid \<Rightarrow> int \<Rightarrow> pending_change \<Rightarrow> bool" where
  "is_live propertyId proposerId c =
     (pc_propertyId c = Some propertyId \<and> pc_proposerId c = proposerId \<and>
      pc_status c = Pending \<and> pc_isDraft c = False)"

text \<open>
  \<^verbatim>\<open>submitPendingChange\<close> runs its checks in this order, each answering at once when it
  fires: the idempotent replay, the assignment, the property and the field allow-list,
  the ownership of the uploads, and last the conflict query, after which it writes.
\<close>

definition replay_check :: "pc_db \<Rightarrow> submit_body \<Rightarrow> string option \<Rightarrow> pc_response option" where
  "replay_check db body header =
     (case effective_key body header of
        None \<Rightarrow> None
      | Some k \<Rightarrow>
          (case find (\<lambda>e. ik_idempotencyKey e = k) (propertyPendingChangesIdempotency db) of
             None \<Rightarrow> None
           | Some existing \<Rightarrow>
               (case find (\<lambda>c. pc_id c = ik_changeId existing) (propertyPendingChanges db) of
                  None \<Rightarrow> Some (Failure 500 ''Failed to submit changes'')
                | Some change \<Rightarrow>
                    Some (ChangeReplay (pc_id change) (pc_status change) (pc_createdAt change)))))"

definition invalid_fields :: "submit_body \<Rightarrow> string list" where
  "invalid_fields body =
     filter (\<lambda>field. field \<notin> set ALLOWED_EMPLOYEE_FIELDS) (map fst (sb_proposed_payload body))"

definition access_checks :: "pc_db \<Rightarrow> uuid \<Rightarrow> int \<Rightarrow> submit_body \<Rightarrow> pc_response option" where
  "access_checks db i employeeId body =
     (if find (\<lambda>a. ea_propertyId a = i \<and> ea_employeeId a = employeeId)
           (propertyEmployeeAssignments db) = None
      then Some (Failure 403 ''Property not found or not assigned to you'')
      else if find (\<lambda>p. e_id p = i \<and> e_cols p ''deleted'' = JBool False) (properties db) = None
      then Some (Failure 403 ''Property not found or not assigned to you'')
      else if invalid_fields body \<noteq> []
      then Some (Failure 400 (''Cannot modify fields: '' @ join '', '' (invalid_fields body)))
      else None)"

definition upload_check :: "pc_db \<Rightarrow> int \<Rightarrow> submit_body \<Rightarrow> pc_response option" where
  "upload_check db employeeId body =
     (if upload_ids body \<noteq> [] \<and>
         length (filter (\<lambda>u. up_id u \<in> set (upload_ids body) \<and> up_ownerId u = employeeId)
                   (uploads db)) \<noteq> length (upload_ids body)
      then Some (Failure 400 ''Invalid upload references'')
      else None)"

definition submit_checks ::
  "pc_db \<Rightarrow> uuid \<Rightarrow> int \<Rightarrow> submit_body \<Rightarrow> string option \<Rightarrow> pc_response option" where
  "submit_checks db i employeeId body header =
     (case replay_check db body header of
        Some resp \<Rightarrow> Some resp
      | None \<Rightarrow>
          (case access_checks db i employeeId body of
             Some resp \<Rightarrow> Some resp
           | None \<Rightarrow> upload_check db employeeId body))"

text \<open>The row that \<^verbatim>\<open>submitPendingChange\<close> inserts, with the id the database draws for it,
  and the update that marks the listed uploads as referenced by a change.\<close>

definition new_change :: "pc_db \<Rightarrow> timestamp \<Rightarrow> uuid \<Rightarrow> int \<Rightarrow> submit_body \<Rightarrow> pending_change" where
  "new_change db now i employeeId body =
     \<lparr>pc_id = pc_next_id db, pc_propertyId = Some i, pc_proposerId = employeeId,
      pc_proposedPayload = sb_proposed_payload body, pc_diffSummary = sb_diff_summary body,
      pc_status = (if sb_isDraft body then Draft else Pending), pc_reason = None,
      pc_isDraft = sb_isDraft body, pc_createdAt = now, pc_reviewedAt = None,
      pc_reviewedByAdminId = None\<rparr>"

definition mark_referenced :: "uuid list \<Rightarrow> uuid \<Rightarrow> upload list \<Rightarrow> upload list" where
  "mark_referenced ids changeId rows =
     map (\<lambda>u. if up_id u \<in> set ids
               then u\<lparr>up_status := Some ''referenced'', up_referencedByChangeId := Some changeId\<rparr>
               else u) rows"

definition submitPendingChange ::
  "pc_db \<Rightarrow> timestamp \<Rightarrow> uuid \<Rightarrow> int \<Rightarrow> submit_body \<Rightarrow> string option \<Rightarrow> pc_response \<times> pc_db" where
  "submitPendingChange db now i employeeId body header =
     (case submit_checks db i employeeId body header of
        Some resp \<Rightarrow> (resp, db)
      | None \<Rightarrow>
          (case (if sb_isDraft body then None
                 else find (is_live i employeeId) (propertyPendingChanges db)) of
             Some existingChange \<Rightarrow> (conflict_response existingChange, db)
           | None \<Rightarrow>
               let pendingChange = new_change db now i employeeId body
               in (ChangeCreated (pc_id pendingChange) (pc_status pendingChange)
                     (pc_createdAt pendingChange),
                   db\<lparr>propertyPendingChanges := propertyPendingChanges db @ [pendingChange],
                      pc_next_id := Suc (pc_next_id db),
                      uploads :=
                        (if upload_ids body \<noteq> []
                         then mark_referenced (upload_ids body) (pc_id pendingChange) (uploads db)
                         else uploads db),
                      propertyPendingChangesIdempotency :=
                        (case effective_key body header of
                           None \<Rightarrow> propertyPendingChangesIdempotency db
                         | Some k \<Rightarrow>
                             propertyPendingChangesIdempotency db @
                             [\<lparr>ik_idempotencyKey = k, ik_changeId = pc_id pendingChange\<rparr>])\<rparr>)))"

text \<open>\<^verbatim>\<open>createProperty\<close>; \<open>propertyData\<close> is the body as \<^verbatim>\<open>createPropertySchema\<close> parsed it.\<close>

definition createProperty ::
  "pc_db \<Rightarrow> timestamp \<Rightarrow> int \<Rightarrow> payload \<Rightarrow> bool \<Rightarrow> pc_response \<times> pc_db" where
  "createProperty db now employeeId propertyData isDraft =
     (let pendingChange =
            \<lparr>pc_id = pc_next_id db, pc_propertyId = None, pc_proposerId = employeeId,
             pc_proposedPayload = propertyData, pc_diffSummary = None,
             pc_status = (if isDraft then Draft else Pending), pc_reason = None,
             pc_isDraft = isDraft, pc_createdAt = now, pc_reviewedAt = None,
             pc_reviewedByAdminId = None\<rparr>
      in (ChangeCreated (pc_id pendingChange) (pc_status pendingChange) (pc_createdAt pendingChange),
          db\<lparr>propertyPendingChanges := propertyPendingChanges db @ [pendingChange],
             pc_next_id := Suc (pc_next_id db)\<rparr>))"

text \<open>
  The \<^verbatim>\<open>delete(propertyPendingChanges).where(...)\<close> statement under the foreign keys of
  \<^verbatim>\<open>models/upload.ts\<close>. \<^verbatim>\<open>uploads.referencedByChangeId\<close> references the change with no
  action on delete: while an upload points at a row the statement would delete, the
  database refuses the statement and nothing is deleted. The ledger's \<^verbatim>\<open>changeId\<close>
  references it with \<^verbatim>\<open>onDelete: 'cascade'\<close>: the ledger rows of a deleted change are
  deleted with it.
\<close>

definition referenced_by_upload :: "pc_db \<Rightarrow> uuid \<Rightarrow> bool" where
  "referenced_by_upload db changeId =
     list_ex (\<lambda>u. up_referencedByChangeId u = Some changeId) (uploads db)"

definition delete_changes :: "(pending_change \<Rightarrow> bool) \<Rightarrow> pc_db \<Rightarrow> pc_db option" where
  "delete_changes P db =
     (if list_ex (\<lambda>c. P c \<and> referenced_by_upload db (pc_id c)) (propertyPendingChanges db)
      then None
      else Some
        (db\<lparr>propertyPendingChanges := filter (\<lambda>c. \<not> P c) (propertyPendingChanges db),
            propertyPendingChangesIdempotency :=
              filter (\<lambda>k. \<not> list_ex (\<lambda>c. P c \<and> pc_id c = ik_changeId k)
                                (propertyPendingChanges db))
                (propertyPendingChangesIdempotency db)\<rparr>))"

text \<open>\<^verbatim>\<open>withdrawPendingChange\<close>; both branches of \<^verbatim>\<open>if (change.propertyId)\<close> run the same
  delete. A refused delete is caught and answered 500.\<close>

definition withdrawPendingChange ::
  "pc_db \<Rightarrow> uuid \<Rightarrow> int \<Rightarrow> bool \<Rightarrow> pc_response \<times> pc_db" where
  "withdrawPendingChange db changeId employeeId moveToDraft =
     (case find (\<lambda>c. pc_id c = changeId \<and> pc_proposerId c = employeeId)
             (propertyPendingChanges db) of
        None \<Rightarrow> (Failure 404 ''Pending change not found'', db)
      | Some change \<Rightarrow>
          if moveToDraft
          then (Success,
                db\<lparr>propertyPendingChanges :=
                     map (\<lambda>c. if pc_id c = changeId then c\<lparr>pc_isDraft := True, pc_status := Draft\<rparr>
                               else c) (propertyPendingChanges db)\<rparr>)
          else
            (case delete_changes (\<lambda>c. pc_id c = changeId) db of
               None \<Rightarrow> (Failure 500 ''Failed to withdraw change'', db)
             | Some db' \<Rightarrow> (Success, db')))"

text \<open>The query that \<^verbatim>\<open>updateDraft\<close> and \<^verbatim>\<open>submitDraft\<close> share; the \<open>data\<close> of
  \<^verbatim>\<open>updateDraft\<close> is its body as \<^verbatim>\<open>createPropertySchema\<close> parsed it.\<close>

definition own_draft :: "uuid \<Rightarrow> int \<Rightarrow> pending_change \<Rightarrow> bool" where
  "own_draft changeId employeeId c =
     (pc_id c = changeId \<and> pc_proposerId c = employeeId \<and>
      (pc_isDraft c = True \<or> pc_status c = NeedsRevision))"

definition updateDraft :: "pc_db \<Rightarrow> uuid \<Rightarrow> int \<Rightarrow> payload \<Rightarrow> pc_response \<times> pc_db" where
  "updateDraft db changeId employeeId data =
     (case find (own_draft changeId employeeId) (propertyPendingChanges db) of
        None \<Rightarrow> (Failure 404 ''Draft or revision not found'', db)
      | Some change \<Rightarrow>
          (Success,
           db\<lparr>propertyPendingChanges :=
                map (\<lambda>c. if pc_id c = changeId then c\<lparr>pc_proposedPayload := data\<rparr> else c)
                  (propertyPendingChanges db)\<rparr>))"

definition submitDraft :: "pc_db \<Rightarrow> uuid \<Rightarrow> int \<Rightarrow> pc_response \<times> pc_db" where
  "submitDraft db changeId employeeId =
     (case find (own_draft changeId employeeId) (propertyPendingChanges db) of
        None \<Rightarrow> (Failure 404 ''Draft or revision not found'', db)
      | Some change \<Rightarrow>
          (case (case pc_propertyId change of
                   None \<Rightarrow> None
                 | Some propertyId \<Rightarrow>
                     find (\<lambda>c. is_live propertyId employeeId c \<and> pc_id c \<noteq> changeId)
                       (propertyPendingChanges db)) of
             Some existingChange \<Rightarrow> (conflict_response existingChange, db)
           | None \<Rightarrow>
               (Success,
                db\<lparr>propertyPendingChanges :=
                     map (\<lambda>c. if pc_id c = changeId then c\<lparr>pc_isDraft := False, pc_status := Pending\<rparr>
                               else c) (propertyPendingChanges db)\<rparr>)))"

definition discardDraft :: "pc_db \<Rightarrow> uuid \<Rightarrow> int \<Rightarrow> pc_response \<times> pc_db" where
  "discardDraft db changeId employeeId =
     (case delete_changes
             (\<lambda>c. pc_id c = changeId \<and> pc_proposerId c = employeeId \<and> pc_isDraft c = True) db of
        None \<Rightarrow> (Failure 500 ''Failed to discard draft'', db)
      | Some db' \<Rightarrow> (Success, db'))"

section \<open>Admin review of pending changes\<close>

text \<open>
  \<^verbatim>\<open>approvePendingChange\<close> (adminPendingChangesController.ts) writes the canonical row and
  then the status of the change, two statements that the database may each refuse. The
  model is told which statements raise: the canonical write, the status update
  (finalize) and the compensating update of the catch block. A statement that raises
  writes nothing. The audit service swallows its own failures, and a failing read
  leaves nothing written; neither is a fault of the model.
\<close>

record faults =
  f_write :: bool
  f_finalize :: bool
  f_rollback :: bool

datatype apply_as = Proposed | MergedPayload

definition approve_failed :: pc_response where
  "approve_failed = Failure 500 ''Failed to approve change''"

text \<open>\<^verbatim>\<open>applyAs === 'mergedPayload' && mergedPayload ? mergedPayload : proposedPayload\<close>\<close>

definition chosen_payload :: "apply_as \<Rightarrow> payload option \<Rightarrow> payload \<Rightarrow> payload" where
  "chosen_payload applyAs mergedPayload proposedPayload =
     (case mergedPayload of
        None \<Rightarrow> proposedPayload
      | Some merged \<Rightarrow> if applyAs = MergedPayload then merged else proposedPayload)"

text \<open>\<^verbatim>\<open>updateData\<close> of the property branch: the payload, \<open>updatedAt\<close>, and the price as text.\<close>

definition property_update_data :: "payload \<Rightarrow> timestamp \<Rightarrow> payload" where
  "property_update_data p now =
     (case map_of p ''price'' of
        None \<Rightarrow> obj_set ''updatedAt'' (JNum now) p
      | Some price \<Rightarrow>
          obj_set ''price''
            (if price = JNull \<or> price = JStr [] then JNull else JStr (js_toString price))
            (obj_set ''updatedAt'' (JNum now) p))"

definition update_entity :: "uuid \<Rightarrow> ((string \<Rightarrow> jval) \<Rightarrow> (string \<Rightarrow> jval)) \<Rightarrow> entity list \<Rightarrow> entity list" where
  "update_entity i f rows = map (\<lambda>p. if e_id p = i then p\<lparr>e_cols := f (e_cols p)\<rparr> else p) rows"

definition updated_entity :: "uuid \<Rightarrow> ((string \<Rightarrow> jval) \<Rightarrow> (string \<Rightarrow> jval)) \<Rightarrow> entity list \<Rightarrow> entity option" where
  "updated_entity i f rows =
     (case filter (\<lambda>p. e_id p = i) rows of
        [] \<Rightarrow> None
      | p # _ \<Rightarrow> Some (p\<lparr>e_cols := f (e_cols p)\<rparr>))"

definition mark_approved :: "uuid \<Rightarrow> int \<Rightarrow> timestamp \<Rightarrow> pending_change list \<Rightarrow> pending_change list" where
  "mark_approved changeId adminId now rows =
     map (\<lambda>c. if pc_id c = changeId
               then c\<lparr>pc_status := Approved, pc_reviewedAt := Some now,
                      pc_reviewedByAdminId := Some adminId\<rparr>
               else c) rows"

definition audit_log :: "int \<Rightarrow> string \<Rightarrow> pc_db \<Rightarrow> pc_db" where
  "audit_log adminId actionType db = db\<lparr>adminAuditLogs := adminAuditLogs db @ [(adminId, actionType)]\<rparr>"

text \<open>
  The catch block of the property branch:
  \<^verbatim>\<open>if (property && propChange.propertyId && oldProperty) { try { update(properties)
  .set(oldProperty) } catch { log } }\<close>, after which the error is thrown on.
\<close>

definition rollback_property ::
  "pc_db \<Rightarrow> faults \<Rightarrow> uuid option \<Rightarrow> entity option \<Rightarrow> entity option \<Rightarrow> pc_db" where
  "rollback_property db fl propertyId property oldProperty =
     (case (property, propertyId, oldProperty) of
        (Some p, Some pid, Some old) \<Rightarrow>
          if f_rollback fl then db
          else db\<lparr>properties :=
                 update_entity pid (row_restore property_columns (e_cols old)) (properties db)\<rparr>
      | _ \<Rightarrow> db)"

definition approve_property ::
  "pc_db \<Rightarrow> timestamp \<Rightarrow> faults \<Rightarrow> int \<Rightarrow> pending_change \<Rightarrow> payload \<Rightarrow> pc_response \<times> pc_db" where
  "approve_property db now fl adminId propChange p =
     (case pc_propertyId propChange of
        Some pid \<Rightarrow>
          let oldProperty = find (\<lambda>e. e_id e = pid) (properties db) in
          if f_write fl then (approve_failed, rollback_property db fl (Some pid) None oldProperty)
          else
            let property = updated_entity pid
                             (row_set property_columns (property_update_data p now)) (properties db);
                db1 = db\<lparr>properties :=
                        update_entity pid (row_set property_columns (property_update_data p now))
                          (properties db)\<rparr>
            in if f_finalize fl
               then (approve_failed, rollback_property db1 fl (Some pid) property oldProperty)
               else
                 let db2 = db1\<lparr>propertyPendingChanges :=
                             mark_approved (pc_id propChange) adminId now
                               (propertyPendingChanges db1)\<rparr>
                 in (case property of
                       None \<Rightarrow> (approve_failed, rollback_property db2 fl (Some pid) None oldProperty)
                     | Some result \<Rightarrow>
                         (EntityJson result, audit_log adminId ''property_change_approve'' db2))
      | None \<Rightarrow>
          if f_write fl then (approve_failed, rollback_property db fl None None None)
          else
            let property =
                  \<lparr>e_id = pc_next_id db,
                   e_cols = row_set property_columns
                              (obj_set ''createdByEmployeeId'' (JNum (pc_proposerId propChange))
                                (obj_set ''assignedEmployeeId'' (JNum (pc_proposerId propChange)) p))
                              (property_defaults now)\<rparr>;
                db1 = db\<lparr>properties := properties db @ [property],
                         pc_next_id := Suc (pc_next_id db)\<rparr>
            in if f_finalize fl
               then (approve_failed, rollback_property db1 fl None (Some property) None)
               else
                 (EntityJson property,
                  audit_log adminId ''property_change_approve''
                    (db1\<lparr>propertyPendingChanges :=
                          mark_approved (pc_id propChange) adminId now
                            (propertyPendingChanges db1)\<rparr>)))"

text \<open>The banner branch: the same steps on the banner tables, without the price rule and
  without the stamps of the proposer.\<close>

definition mark_banner_approved ::
  "uuid \<Rightarrow> int \<Rightarrow> timestamp \<Rightarrow> banner_change list \<Rightarrow> banner_change list" where
  "mark_banner_approved changeId adminId now rows =
     map (\<lambda>c. if bc_id c = changeId
               then c\<lparr>bc_status := Approved, bc_reviewedAt := Some now,
                      bc_reviewedByAdminId := Some adminId\<rparr>
               else c) rows"

definition rollback_banner ::
  "pc_db \<Rightarrow> faults \<Rightarrow> uuid option \<Rightarrow> entity option \<Rightarrow> entity option \<Rightarrow> pc_db" where
  "rollback_banner db fl bannerId banner oldBanner =
     (case (banner, bannerId, oldBanner) of
        (Some b, Some bid, Some old) \<Rightarrow>
          if f_rollback fl then db
          else db\<lparr>banners := update_entity bid (row_restore banner_columns (e_cols old)) (banners db)\<rparr>
      | _ \<Rightarrow> db)"

definition approve_banner ::
  "pc_db \<Rightarrow> timestamp \<Rightarrow> faults \<Rightarrow> int \<Rightarrow> banner_change \<Rightarrow> payload \<Rightarrow> pc_response \<times> pc_db" where
  "approve_banner db now fl adminId bannerChange p =
     (case bc_bannerId bannerChange of
        Some bid \<Rightarrow>
          let oldBanner = find (\<lambda>e. e_id e = bid) (banners db) in
          if f_write fl then (approve_failed, rollback_banner db fl (Some bid) None oldBanner)
          else
            let banner = updated_entity bid
                           (row_set banner_columns (obj_set ''updatedAt'' (JNum now) p)) (banners db);
                db1 = db\<lparr>banners :=
                        update_entity bid (row_set banner_columns (obj_set ''updatedAt'' (JNum now) p))
                          (banners db)\<rparr>
            in if f_finalize fl
               then (approve_failed, rollback_banner db1 fl (Some bid) banner oldBanner)
               else
                 let db2 = db1\<lparr>bannerPendingChanges :=
                             mark_banner_approved (bc_id bannerChange) adminId now
                               (bannerPendingChanges db1)\<rparr>
                 in (case banner of
                       None \<Rightarrow> (approve_failed, rollback_banner db2 fl (Some bid) None oldBanner)
                     | Some result \<Rightarrow>
                         (EntityJson result, audit_log adminId ''banner_change_approve'' db2))
      | None \<Rightarrow>
          if f_write fl then (approve_failed, rollback_banner db fl None None None)
          else
            let banner = \<lparr>e_id = pc_next_id db,
                          e_cols = row_set banner_columns p (banner_defaults now)\<rparr>;
                db1 = db\<lparr>banners := banners db @ [banner], pc_next_id := Suc (pc_next_id db)\<rparr>
            in if f_finalize fl
               then (approve_failed, rollback_banner db1 fl None (Some banner) None)
               else
                 (EntityJson banner,
                  audit_log adminId ''banner_change_approve''
                    (db1\<lparr>bannerPendingChanges :=
                          mark_banner_approved (bc_id bannerChange) adminId now
                            (bannerPendingChanges db1)\<rparr>)))"

definition approvePendingChange ::
  "pc_db \<Rightarrow> timestamp \<Rightarrow> faults \<Rightarrow> uuid \<Rightarrow> int \<Rightarrow> apply_as \<Rightarrow> payload option
     \<Rightarrow> pc_response \<times> pc_db" where
  "approvePendingChange db now fl changeId adminId applyAs mergedPayload =
     (case find (\<lambda>c. pc_id c = changeId) (propertyPendingChanges db) of
        Some propChange \<Rightarrow>
          if pc_status propChange \<noteq> Pending \<and> pc_status propChange \<noteq> NeedsRevision
          then (Failure 400 ''Change already processed'', db)
          else approve_property db now fl adminId propChange
                 (chosen_payload applyAs mergedPayload (pc_proposedPayload propChange))
      | None \<Rightarrow>
          (case find (\<lambda>c. bc_id c = changeId) (bannerPendingChanges db) of
             Some bannerChange \<Rightarrow>
               if bc_status bannerChange \<noteq> Pending \<and> bc_status bannerChange \<noteq> NeedsRevision
               then (Failure 400 ''Change already processed'', db)
               else approve_banner db now fl adminId bannerChange
                      (chosen_payload applyAs mergedPayload (bc_proposedPayload bannerChange))
           | None \<Rightarrow> (Failure 404 ''Pending change not found'', db)))"

text \<open>\<^verbatim>\<open>rejectPendingChange\<close> and \<^verbatim>\<open>requestChanges\<close> of the same controller.\<close>

definition review_set ::
  "pc_status \<Rightarrow> string \<Rightarrow> timestamp \<Rightarrow> int \<Rightarrow> pending_change \<Rightarrow> pending_change" where
  "review_set st reason now adminId c =
     c\<lparr>pc_status := st, pc_reason := Some reason, pc_reviewedAt := Some now,
       pc_reviewedByAdminId := Some adminId\<rparr>"

definition banner_review_set ::
  "pc_status \<Rightarrow> string \<Rightarrow> timestamp \<Rightarrow> int \<Rightarrow> banner_change \<Rightarrow> banner_change" where
  "banner_review_set st reason now adminId c =
     c\<lparr>bc_status := st, bc_reason := Some reason, bc_reviewedAt := Some now,
       bc_reviewedByAdminId := Some adminId\<rparr>"

definition rejectPendingChange ::
  "pc_db \<Rightarrow> timestamp \<Rightarrow> uuid \<Rightarrow> int \<Rightarrow> string \<Rightarrow> pc_response \<times> pc_db" where
  "rejectPendingChange db now changeId adminId reason =
     (if length reason < 1 then (Failure 400 ''Rejection reason is required'', db)
      else
        (case find (\<lambda>c. pc_id c = changeId) (propertyPendingChanges db) of
           Some propChange \<Rightarrow>
             (Success,
              audit_log adminId ''property_change_reject''
                (db\<lparr>propertyPendingChanges :=
                      map (\<lambda>c. if pc_id c = changeId
                                then review_set ChangeRejected reason now adminId c else c)
                        (propertyPendingChanges db)\<rparr>))
         | None \<Rightarrow>
             (case find (\<lambda>c. bc_id c = changeId) (bannerPendingChanges db) of
                Some bannerChange \<Rightarrow>
                  (Success,
                   audit_log adminId ''banner_change_reject''
                     (db\<lparr>bannerPendingChanges :=
                           map (\<lambda>c. if bc_id c = changeId
                                     then banner_review_set ChangeRejected reason now adminId c
                                     else c)
                             (bannerPendingChanges db)\<rparr>))
              | None \<Rightarrow> (Failure 404 ''Pending change not found'', db))))"

definition requestChanges ::
  "pc_db \<Rightarrow> timestamp \<Rightarrow> uuid \<Rightarrow> int \<Rightarrow> string \<Rightarrow> pc_response \<times> pc_db" where
  "requestChanges db now changeId adminId comments =
     (if length comments < 1 then (Failure 400 ''Comments are required'', db)
      else
        (case find (\<lambda>c. pc_id c = changeId) (propertyPendingChanges db) of
           Some propChange \<Rightarrow>
             (Success,
              audit_log adminId ''property_change_request_revision''
                (db\<lparr>propertyPendingChanges :=
                      map (\<lambda>c. if pc_id c = changeId
                                then review_set NeedsRevision comments now adminId c else c)
                        (propertyPendingChanges db)\<rparr>))
         | None \<Rightarrow>
             (case find (\<lambda>c. bc_id c = changeId) (bannerPendingChanges db) of
                Some bannerChange \<Rightarrow>
                  (Success,
                   audit_log adminId ''banner_change_request_revision''
                     (db\<lparr>bannerPendingChanges :=
                           map (\<lambda>c. if bc_id c = changeId
                                     then banner_review_set NeedsRevision comments now adminId c
                                     else c)
                             (bannerPendingChanges db)\<rparr>))
              | None \<Rightarrow> (Failure 404 ''Pending change not found'', db))))"

section \<open>Sequences of operations\<close>

text \<open>
  The operations on property changes as one datatype, so that a history is a list;
  \<open>step\<close> runs the handler and keeps the tables, \<open>run\<close> a whole history in order (no
  two handlers interleave).
\<close>

datatype pc_op =
    SubmitChange timestamp uuid int submit_body "string option"
  | CreateProperty timestamp int payload bool
  | Withdraw uuid int bool
  | UpdateDraft uuid int payload
  | SubmitDraft uuid int
  | DiscardDraft uuid int
  | Approve timestamp faults uuid int apply_as "payload option"
  | Reject timestamp uuid int string
  | RequestRevision timestamp uuid int string

fun perform :: "pc_db \<Rightarrow> pc_op \<Rightarrow> pc_response \<times> pc_db" where
  "perform db (SubmitChange now i e body header) = submitPendingChange db now i e body header"
| "perform db (CreateProperty now e propertyData isDraft) = createProperty db now e propertyData isDraft"
| "perform db (Withdraw c e moveToDraft) = withdrawPendingChange db c e moveToDraft"
| "perform db (UpdateDraft c e data) = updateDraft db c e data"
| "perform db (SubmitDraft c e) = submitDraft db c e"
| "perform db (DiscardDraft c e) = discardDraft db c e"
| "perform db (Approve now fl c a applyAs merged) = approvePendingChange db now fl c a applyAs merged"
| "perform db (Reject now c a reason) = rejectPendingChange db now c a reason"
| "perform db (RequestRevision now c a comments) = requestChanges db now c a comments"

definition step :: "pc_db \<Rightarrow> pc_op \<Rightarrow> pc_db" where
  "step db op = snd (perform db op)"

definition run :: "pc_db \<Rightarrow> pc_op list \<Rightarrow> pc_db" where
  "run db ops = foldl step db ops"






section \<open>Histories and instances\<close>

text \<open>A table with one ticket (id 11, version 1) in a given status and with a given
  assignee; users 7 and 8 are active finance employees, user 5 is the customer.\<close>


definition ex_ticket :: loan_request where
  "ex_ticket =
     \<lparr>lr_id = 11, lr_userId = 5, lr_propertyValue = 1000000, lr_loanAmountNeeded = 800000,
      lr_status = Received, lr_assigneeId = None, lr_version = 1,
      lr_priority = Some ''normal'', lr_slaDueAt = Some 86400000, lr_lastActivityAt = Some 0,
      lr_isEscalated = Some False, lr_escalationReason = None, lr_updatedAt = 0,
      lr_deletedAt = None\<rparr>"

definition ex_users :: "user list" where
  "ex_users =
     [\<lparr>u_id = 7, u_name = Some ''Asha'', u_role = Some ''employee'',
       u_department = Some ''Finance'', u_active = Some True, u_deleted = Some False\<rparr>,
      \<lparr>u_id = 8, u_name = Some ''Ravi'', u_role = Some ''employee'',
       u_department = Some ''Finance'', u_active = Some True, u_deleted = Some False\<rparr>,
      \<lparr>u_id = 5, u_name = Some ''Kiran'', u_role = Some ''customer'',
       u_department = None, u_active = Some True, u_deleted = Some False\<rparr>]"

definition ex_db :: "status \<Rightarrow> int option \<Rightarrow> ticket_db" where
  "ex_db st a =
     \<lparr>loanRequests = [ex_ticket\<lparr>lr_status := st, lr_assigneeId := a\<rparr>],
      loanRequestAssignments = [], loanRequestAuditLogs = [], users = ex_users,
      ticket_next_id = 12\<rparr>"




text \<open>A small instance of the pending-change tables: property 21 assigned to employee
  7, who owns upload 31; upload 32 belongs to employee 8.\<close>

definition ex_property :: entity where
  "ex_property =
     \<lparr>e_id = 21,
      e_cols = row_set property_columns
                 [(''title'', JStr ''Lake View''), (''location'', JStr ''Hyderabad'')]
                 (property_defaults 0)\<rparr>"

definition ex_pc_db :: pc_db where
  "ex_pc_db =
     \<lparr>properties = [ex_property], banners = [], propertyPendingChanges = [],
      bannerPendingChanges = [],
      uploads = [\<lparr>up_id = 31, up_ownerId = 7, up_status = Some ''uploaded'',
                  up_referencedByChangeId = None\<rparr>,
                 \<lparr>up_id = 32, up_ownerId = 8, up_status = Some ''uploaded'',
                  up_referencedByChangeId = None\<rparr>],
      propertyPendingChangesIdempotency = [],
      propertyEmployeeAssignments = [\<lparr>ea_propertyId = 21, ea_employeeId = 7\<rparr>],
      adminAuditLogs = [], pc_next_id = 100\<rparr>"

definition ex_submit :: submit_body where
  "ex_submit =
     \<lparr>sb_proposed_payload = [(''title'', JStr ''New'')], sb_diff_summary = None,
      sb_uploadedAssets = None, sb_idempotencyKey = None, sb_isDraft = False\<rparr>"

definition no_faults :: faults where
  "no_faults = \<lparr>f_write = False, f_finalize = False, f_rollback = False\<rparr>"

text \<open>Employee 7 has proposed a new property (change 100); the status update of the
  approval is going to fail.\<close>

definition ex_creation_db :: pc_db where
  "ex_creation_db =
     snd (createProperty ex_pc_db 1000 7
            [(''title'', JStr ''Hill Side''), (''location'', JStr ''Pune'')] False)"

definition finalize_fails :: faults where
  "finalize_fails = \<lparr>f_write = False, f_finalize = True, f_rollback = False\<rparr>"

text \<open>Employee 7 has proposed a change of property 21 (change 100) and admin 1 has
  approved it.\<close>

definition ex_approved_db :: pc_db where
  "ex_approved_db =
     run ex_pc_db [SubmitChange 1000 21 7 ex_submit None, Approve 2000 no_faults 100 1 Proposed None]"

text \<open>A draft that references upload 31 (the proposer's own), and a submission that
  references upload 32 (someone else's).\<close>

definition ex_upload_draft :: submit_body where
  "ex_upload_draft = ex_submit\<lparr>sb_uploadedAssets := Some [31], sb_isDraft := True\<rparr>"

definition ex_foreign_upload :: submit_body where
  "ex_foreign_upload = ex_submit\<lparr>sb_uploadedAssets := Some [32]\<rparr>"



section \<open>Properties of the ticket workflow\<close>

subsection \<open>Rows, primary keys and the conditional update\<close>

lemma find_distinct_id:
  "distinct (map lr_id rows) \<Longrightarrow> find P rows = Some t \<Longrightarrow>
   filter (\<lambda>r. lr_id r = lr_id t) rows = [t]"
proof (induction rows)
  case Nil
  then show ?case by simp
next
  case (Cons r rows)
  show ?case
  proof (cases "P r")
    case True
    with Cons.prems have "t = r" by simp
    moreover have "filter (\<lambda>x. lr_id x = lr_id r) rows = []"
    proof -
      from Cons.prems have "lr_id r \<notin> lr_id ` set rows" by simp
      then have "\<forall>x\<in>set rows. lr_id x \<noteq> lr_id r" by (metis imageI)
      then show ?thesis by (simp add: filter_empty_conv)
    qed
    ultimately show ?thesis by simp
  next
    case False
    with Cons.prems have f: "find P rows = Some t" by simp
    then have "t \<in> set rows" by (auto simp: find_Some_iff)
    with Cons.prems have "lr_id r \<noteq> lr_id t" by auto
    with Cons f show ?thesis by simp
  qed
qed

lemma select_live_id: "select_live db i = Some t \<Longrightarrow> lr_id t = i \<and> lr_deletedAt t = None"
  by (auto simp: select_live_def find_Some_iff)

lemma returning_at_version:
  assumes "distinct (map lr_id (loanRequests db))" "select_live db i = Some t"
  shows "returning (at_version i v) f (loanRequests db) = (if lr_version t = v then [f t] else [])"
proof -
  have id: "lr_id t = i" using assms(2) by (simp add: select_live_id)
  have "filter (\<lambda>r. lr_id r = lr_id t) (loanRequests db) = [t]"
    using assms unfolding select_live_def by (rule find_distinct_id)
  moreover have "filter (at_version i v) (loanRequests db) =
      filter (\<lambda>r. lr_version r = v) (filter (\<lambda>r. lr_id r = lr_id t) (loanRequests db))"
    by (auto simp: at_version_def id intro: filter_cong)
  ultimately show ?thesis by (simp add: returning_def)
qed


lemma rows_with_id:
  assumes "distinct (map lr_id (loanRequests db))" "select_live db i = Some t"
    and "r \<in> set (loanRequests db)" "lr_id r = i"
  shows "r = t"
proof -
  have "filter (\<lambda>r. lr_id r = lr_id t) (loanRequests db) = [t]"
    using assms(1,2) unfolding select_live_def by (rule find_distinct_id)
  moreover have "r \<in> set (filter (\<lambda>r. lr_id r = lr_id t) (loanRequests db))"
    using assms by (simp add: select_live_id)
  ultimately show ?thesis by simp
qed

lemma select_by_id_live:
  assumes "distinct (map lr_id (loanRequests db))" "select_live db i = Some t"
  shows "select_by_id db i = Some t"
proof -
  have "t \<in> set (loanRequests db)" "lr_id t = i"
    using assms(2) by (auto simp: select_live_def find_Some_iff)
  then obtain r where r: "select_by_id db i = Some r"
    unfolding select_by_id_def by (cases "find (\<lambda>r. lr_id r = i) (loanRequests db)") (auto simp: find_None_iff)
  then have "r \<in> set (loanRequests db)" "lr_id r = i"
    by (auto simp: select_by_id_def find_Some_iff)
  with assms have "r = t" by (rule rows_with_id)
  with r show ?thesis by simp
qed

lemma update_where_ids:
  "(\<And>r. lr_id (f r) = lr_id r) \<Longrightarrow> map lr_id (update_where P f rows) = map lr_id rows"
  by (induction rows) (simp_all add: update_where_def)


lemma find_mapped: "find P (map g xs) = map_option g (find (P \<circ> g) xs)"
  by (induction xs) simp_all

lemma select_live_update:
  assumes "\<And>r. lr_id (f r) = lr_id r" "\<And>r. lr_deletedAt (f r) = lr_deletedAt r"
  shows "select_live (db\<lparr>loanRequests := update_where P f (loanRequests db)\<rparr>) i =
         map_option (\<lambda>r. if P r then f r else r) (select_live db i)"
proof -
  have "((\<lambda>r. lr_id r = i \<and> lr_deletedAt r = None) \<circ> (\<lambda>r. if P r then f r else r)) =
        (\<lambda>r. lr_id r = i \<and> lr_deletedAt r = None)"
    using assms by (auto simp: fun_eq_iff)
  then show ?thesis by (simp add: select_live_def update_where_def find_mapped)
qed

lemma createAuditLog_rows [simp]:
  "loanRequests (createAuditLog i a act ov nv c db) = loanRequests db"
  by (simp add: createAuditLog_def)

lemma select_live_audit [simp]:
  "select_live (createAuditLog i a act ov nv c db) j = select_live db j"
  by (simp add: select_live_def)

lemma select_by_id_audit [simp]:
  "select_by_id (createAuditLog i a act ov nv c db) j = select_by_id db j"
  by (simp add: select_by_id_def)

lemma status_set_keeps [simp]:
  "lr_id (status_set st now r) = lr_id r"
  "lr_deletedAt (status_set st now r) = lr_deletedAt r"
  "lr_version (status_set st now r) = lr_version r + 1"
  "lr_status (status_set st now r) = st"
  by (simp_all add: status_set_def)

lemma read_observes:
  assumes "updateLoanRequestStatus_read db i s c = Inr obs"
  shows "\<exists>st. obs = (st, the (select_live db i)) \<and> select_live db i \<noteq> None \<and>
              parse_status s = Some st \<and>
              st \<in> set (ALLOWED_STATUS_TRANSITIONS (lr_status (the (select_live db i))))"
  using assms unfolding updateLoanRequestStatus_read_def
  by (auto split: option.splits if_splits)

lemma version_overflow_at:
  assumes "distinct (map lr_id (loanRequests db))" "select_live db i = Some t"
  shows "version_overflow (at_version i v) (loanRequests db) =
           (lr_version t = v \<and> int4_max \<le> v)"
proof -
  have mem: "t \<in> set (loanRequests db)" "lr_id t = i"
    using assms(2) by (auto simp: select_live_def find_Some_iff)
  have uniq: "\<And>r. r \<in> set (loanRequests db) \<Longrightarrow> lr_id r = i \<Longrightarrow> r = t"
    using assms by (rule rows_with_id)
  show ?thesis
    unfolding version_overflow_def list_ex_iff at_version_def
  proof
    assume "\<exists>r\<in>set (loanRequests db).
              (lr_id r = i \<and> lr_version r = v) \<and> int4_max < lr_version r + 1"
    then obtain r where r: "r \<in> set (loanRequests db)" "lr_id r = i" "lr_version r = v"
      "int4_max < lr_version r + 1" by blast
    from uniq[OF r(1,2)] r(3,4) show "lr_version t = v \<and> int4_max \<le> v" by simp
  next
    assume a: "lr_version t = v \<and> int4_max \<le> v"
    show "\<exists>r\<in>set (loanRequests db).
              (lr_id r = i \<and> lr_version r = v) \<and> int4_max < lr_version r + 1"
    proof (rule bexI)
      show "(lr_id t = i \<and> lr_version t = v) \<and> int4_max < lr_version t + 1"
        using a mem(2) by simp
    qed (rule mem(1))
  qed
qed

lemma write_step:
  assumes d: "distinct (map lr_id (loanRequests db))" and t: "select_live db i = Some t"
  shows "updateLoanRequestStatus_write db now i a c (st, e) =
     (if lr_version t \<noteq> lr_version e
      then (TicketConflict ''Loan request was modified by another user'' (Some t), db)
      else if int4_max \<le> lr_version t
      then (ServerError ''Failed to update status'', db)
      else (TicketOk (status_set st now t),
            createAuditLog i a ''status_change'' (Some (status_str (lr_status e)))
              (Some (status_str st)) c
              (db\<lparr>loanRequests := update_where (at_version i (lr_version e)) (status_set st now)
                  (loanRequests db)\<rparr>)))"
  using select_by_id_live[OF d t]
  by (simp add: updateLoanRequestStatus_write_def returning_at_version[OF d t]
      version_overflow_at[OF d t])

subsection \<open>Optimistic concurrency of changeStatus\<close>




text \<open>
  At the top of the column's range the conditional update is refused: the handler
  answers 500 and the row keeps its version and its status.
\<close>

lemma changeStatus_version_overflow:
  assumes d: "distinct (map lr_id (loanRequests db))"
    and t: "select_live db i = Some t"
    and n: "lr_version t = int4_max"
    and o: "updateLoanRequestStatus_read db i s c = Inr obs"
  shows "updateLoanRequestStatus db now i a s c = (ServerError ''Failed to update status'', db)"
proof -
  from read_observes[OF o] t obtain st where obs: "obs = (st, t)" by auto
  show ?thesis
    by (simp add: updateLoanRequestStatus_def o obs write_step[OF d t] n)
qed

subsection \<open>Status adjacency\<close>

text \<open>
  The finance employee's handler refuses every transition outside the table: the row
  stays as it is and the answer is a 400, which echoes the allowed set whenever the
  comment required for \<open>closed\<close> and \<open>rejected\<close> is present.
\<close>

lemma updateLoanRequestStatus_rejects_non_adjacent:
  assumes "select_live db i = Some t" "parse_status s = Some st"
    and "st \<notin> set (ALLOWED_STATUS_TRANSITIONS (lr_status t))"
  shows "snd (updateLoanRequestStatus db now i a s c) = db"
    and "http_status (fst (updateLoanRequestStatus db now i a s c)) = 400"
    and "comment_ok c \<Longrightarrow> (st = Closed \<or> st = Rejected) \<longrightarrow> truthy_str c \<Longrightarrow>
         fst (updateLoanRequestStatus db now i a s c) =
           BadTransition (''Cannot transition from '' @ status_str (lr_status t) @ '' to '' @
                          status_str st)
             (ALLOWED_STATUS_TRANSITIONS (lr_status t))"
  using assms
  by (auto simp: updateLoanRequestStatus_def updateLoanRequestStatus_read_def)

text \<open>
  Claim C5. Every transition outside the adjacency table must fail with a validation
  error and leave the row as it is, for a finance employee and for an admin alike. The
  admin's handler \<^verbatim>\<open>changeAdminLoanRequestStatus\<close> never consults the table: on a closed
  ticket a request for \<open>received\<close>, which the table does not allow, answers 200, the
  stored status becomes \<open>received\<close> and the version moves on.
\<close>

theorem admin_changeStatus_ignores_adjacency:
  "Received \<notin> set (ALLOWED_STATUS_TRANSITIONS Closed) \<and>
   http_status (fst (changeAdminLoanRequestStatus (ex_db Closed (Some 7)) 5000 11 99
                       ''received'' None)) = 200 \<and>
   map lr_status (loanRequests (snd (changeAdminLoanRequestStatus (ex_db Closed (Some 7)) 5000 11
                       99 ''received'' None))) = [Received] \<and>
   map lr_version (loanRequests (snd (changeAdminLoanRequestStatus (ex_db Closed (Some 7)) 5000 11
                       99 ''received'' None))) = [lr_version ex_ticket + 1]"
  by (simp add: changeAdminLoanRequestStatus_def parse_status_def comment_ok_def select_live_def
      select_by_id_def ex_db_def ex_ticket_def returning_def update_where_def at_version_def
      status_set_def createAuditLog_def version_overflow_def int4_max_def)

subsection \<open>The version counter\<close>

lemma foldl_reassign_log_rows [simp]:
  "loanRequests (foldl (bulk_reassign_log adminId target) db ts) = loanRequests db"
  by (induction ts arbitrary: db) (simp_all add: bulk_reassign_log_def)

lemma foldl_escalate_log_rows [simp]:
  "loanRequests (foldl (bulk_escalate_log adminId reason) db ts) = loanRequests db"
  by (induction ts arbitrary: db) (simp_all add: bulk_escalate_log_def)

text \<open>No bulk operation touches a version, whatever its input.\<close>

lemma bulk_versions_unchanged:
  "map lr_version (loanRequests (snd (bulkReassignLoanRequests db now adminId ids a auto))) =
     map lr_version (loanRequests db)"
  "map lr_version (loanRequests (snd (bulkEscalateLoanRequests db now adminId ids reason))) =
     map lr_version (loanRequests db)"
  by (auto simp: bulkReassignLoanRequests_def bulkEscalateLoanRequests_def Let_def
      update_where_def bulk_reassign_set_def bulk_escalate_set_def split: option.splits)

text \<open>
  Claim C6. Every mutation of a ticket's status, assignee or escalation, the bulk
  variants included, must leave the stored version strictly greater than before. The
  bulk variants do not: \<^verbatim>\<open>bulkReassignLoanRequests\<close> gives ticket 11 the assignee 7 and
  \<^verbatim>\<open>bulkEscalateLoanRequests\<close> escalates it, and in both cases the version stays at 1.
\<close>

theorem bulk_operations_keep_version:
  "map lr_assigneeId (loanRequests (ex_db Received None)) = [None] \<and>
   map lr_version (loanRequests (ex_db Received None)) = [1] \<and>
   fst (bulkReassignLoanRequests (ex_db Received None) 5000 99 [11] (Some 7) False) = BulkOk 1 \<and>
   map lr_assigneeId (loanRequests (snd (bulkReassignLoanRequests (ex_db Received None) 5000 99
       [11] (Some 7) False))) = [Some 7] \<and>
   map lr_version (loanRequests (snd (bulkReassignLoanRequests (ex_db Received None) 5000 99
       [11] (Some 7) False))) = [1] \<and>
   fst (bulkEscalateLoanRequests (ex_db Received None) 5000 99 [11] ''customer called twice'')
     = BulkOk 1 \<and>
   map lr_isEscalated (loanRequests (snd (bulkEscalateLoanRequests (ex_db Received None) 5000 99
       [11] ''customer called twice''))) = [Some True] \<and>
   map lr_version (loanRequests (snd (bulkEscalateLoanRequests (ex_db Received None) 5000 99
       [11] ''customer called twice''))) = [1]"
  by (simp add: bulkReassignLoanRequests_def bulkEscalateLoanRequests_def bulk_ids_ok_def
      truthy_num_def reason_ok_def returning_def update_where_def in_bulk_def ex_db_def
      ex_ticket_def bulk_reassign_set_def bulk_escalate_set_def Let_def
      bulk_reassign_log_def bulk_escalate_log_def createAuditLog_def)

subsection \<open>Self-assignment\<close>

text \<open>
  Claim C7. \<^verbatim>\<open>take\<close> must advance the status to \<open>under_review\<close> only when it is still
  \<open>received\<close>; a ticket in any other status keeps its status. The handler writes
  \<open>under_review\<close> whatever the status was: employee 7 takes ticket 11 again, which is
  assigned to 7 already and stands at \<open>contacted\<close>, and the ticket falls back to
  \<open>under_review\<close>.
\<close>

theorem take_resets_status:
  "fst (takeLoanRequest (ex_db Contacted (Some 7)) 5000 11 7) =
     TicketOk (ex_ticket\<lparr>lr_status := UnderReview, lr_assigneeId := Some 7, lr_version := 2,
                lr_lastActivityAt := Some 5000, lr_updatedAt := 5000\<rparr>) \<and>
   map lr_status (loanRequests (ex_db Contacted (Some 7))) = [Contacted] \<and>
   map lr_status (loanRequests (snd (takeLoanRequest (ex_db Contacted (Some 7)) 5000 11 7))) =
     [UnderReview]"
  by (simp add: takeLoanRequest_def select_live_def truthy_num_def returning_def
      update_where_def at_version_def take_set_def ex_db_def ex_ticket_def Let_def
      createAuditLog_def version_overflow_def int4_max_def)


text \<open>
  The rest of the operation is as described: a ticket assigned to someone else answers
  409 with that assignee's name and nothing changes; otherwise (below the top of the
  version column's range) the assignee is set, the version grows by one, and one
  assignment record and two audit entries are written.
\<close>

lemma take_conflict:
  assumes "select_live db i = Some t" "lr_assigneeId t = Some a" "a \<noteq> 0" "a \<noteq> financeId"
  shows "takeLoanRequest db now i financeId =
           (TicketConflict (''Already assigned to '' @ assignee_name db a) (Some t), db)"
  using assms by (simp add: takeLoanRequest_def truthy_num_def)

lemma take_success:
  assumes d: "distinct (map lr_id (loanRequests db))" and t: "select_live db i = Some t"
    and a: "lr_assigneeId t = None \<or> lr_assigneeId t = Some 0 \<or> lr_assigneeId t = Some financeId"
    and n: "lr_version t < int4_max"
  shows "fst (takeLoanRequest db now i financeId) = TicketOk (take_set financeId now t)"
    and "select_by_id (snd (takeLoanRequest db now i financeId)) i = Some (take_set financeId now t)"
    and "loanRequestAssignments (snd (takeLoanRequest db now i financeId)) =
           loanRequestAssignments db @
           [\<lparr>la_loanRequestId = i, la_assignedById = financeId, la_assigneeId = financeId,
             la_comment = Some ''Self-assigned''\<rparr>]"
    and "map al_action (loanRequestAuditLogs (snd (takeLoanRequest db now i financeId))) =
           map al_action (loanRequestAuditLogs db) @ [''assigned'', ''status_change'']"
proof -
  have g: "\<not> (truthy_num (lr_assigneeId t) \<and> lr_assigneeId t \<noteq> Some financeId)"
    "\<not> version_overflow (at_version i (lr_version t)) (loanRequests db)"
    using a n by (auto simp: truthy_num_def version_overflow_at[OF d t])
  have r: "returning (at_version i (lr_version t)) (take_set financeId now) (loanRequests db) =
      [take_set financeId now t]"
    by (simp add: returning_at_version[OF d t])
  let ?db1 = "db\<lparr>loanRequests := update_where (at_version i (lr_version t))
                 (take_set financeId now) (loanRequests db)\<rparr>"
  have keep: "\<And>r. lr_id (take_set financeId now r) = lr_id r"
     "\<And>r. lr_deletedAt (take_set financeId now r) = lr_deletedAt r"
    by (simp_all add: take_set_def)
  have "at_version i (lr_version t) t" using t by (simp add: at_version_def select_live_id)
  then have t1: "select_live ?db1 i = Some (take_set financeId now t)"
    using select_live_update[of "take_set financeId now", OF keep] t by simp
  have d1: "distinct (map lr_id (loanRequests ?db1))"
    using d by (simp add: update_where_ids keep)
  have s1: "select_by_id ?db1 i = Some (take_set financeId now t)"
    using d1 t1 by (rule select_by_id_live)
  show "fst (takeLoanRequest db now i financeId) = TicketOk (take_set financeId now t)"
    using t r by (simp add: g takeLoanRequest_def Let_def)
  show "select_by_id (snd (takeLoanRequest db now i financeId)) i = Some (take_set financeId now t)"
    using t r s1 by (simp add: g takeLoanRequest_def Let_def select_by_id_def createAuditLog_def)
  show "loanRequestAssignments (snd (takeLoanRequest db now i financeId)) =
           loanRequestAssignments db @
           [\<lparr>la_loanRequestId = i, la_assignedById = financeId, la_assigneeId = financeId,
             la_comment = Some ''Self-assigned''\<rparr>]"
    using t r by (simp add: g takeLoanRequest_def Let_def createAuditLog_def)
  show "map al_action (loanRequestAuditLogs (snd (takeLoanRequest db now i financeId))) =
           map al_action (loanRequestAuditLogs db) @ [''assigned'', ''status_change'']"
    using t r by (simp add: g takeLoanRequest_def Let_def createAuditLog_def)
qed

subsection \<open>The rate limit of createLoanRequest\<close>









section \<open>Properties of the pending-change engine\<close>

subsection \<open>Approval and its compensation\<close>

lemma ex_creation_db_simp:
  "ex_creation_db = ex_pc_db\<lparr>propertyPendingChanges :=
      [\<lparr>pc_id = 100, pc_propertyId = None, pc_proposerId = 7,
        pc_proposedPayload = [(''title'', JStr ''Hill Side''), (''location'', JStr ''Pune'')],
        pc_diffSummary = None, pc_status = Pending, pc_reason = None, pc_isDraft = False,
        pc_createdAt = 1000, pc_reviewedAt = None, pc_reviewedByAdminId = None\<rparr>],
      pc_next_id := 101\<rparr>"
  by (simp add: ex_creation_db_def createProperty_def ex_pc_db_def Let_def)

text \<open>
  Claim C1. When the status update of an approval fails after the canonical write, the
  canonical table must be as it was before the approval, and in particular the row
  inserted for a creation change must not survive. The catch block compensates only an
  update of an existing row (\<^verbatim>\<open>property && propChange.propertyId && oldProperty\<close>): for
  the creation change 100 the status update fails, the answer is 500, the change is
  still \<open>pending\<close>, and the inserted property 101 stays in the table.
\<close>

theorem approve_creation_not_rolled_back:
  "map e_id (properties ex_creation_db) = [21] \<and>
   map pc_status (propertyPendingChanges ex_creation_db) = [Pending] \<and>
   fst (approvePendingChange ex_creation_db 2000 finalize_fails 100 1 Proposed None) =
     Failure 500 ''Failed to approve change'' \<and>
   map e_id (properties (snd (approvePendingChange ex_creation_db 2000 finalize_fails 100 1
                                Proposed None))) = [21, 101] \<and>
   map pc_status (propertyPendingChanges (snd (approvePendingChange ex_creation_db 2000
                                finalize_fails 100 1 Proposed None))) = [Pending]"
  by (simp add: ex_creation_db_simp approvePendingChange_def approve_property_def
      chosen_payload_def finalize_fails_def rollback_property_def approve_failed_def
      ex_pc_db_def ex_property_def Let_def)

lemma row_restore_row_set [simp]: "row_restore cols old (row_set cols obj old) = old"
  by (auto simp: row_restore_def row_set_def fun_eq_iff)

lemma update_entity_absent:
  "find (\<lambda>e. e_id e = i) rows = None \<Longrightarrow> update_entity i f rows = rows"
  by (induction rows) (auto simp: update_entity_def split: if_splits)

lemma updated_entity_absent:
  "find (\<lambda>e. e_id e = i) rows = None \<Longrightarrow> updated_entity i f rows = None"
  by (induction rows) (auto simp: updated_entity_def split: if_splits)

lemma updated_entity_present:
  "find (\<lambda>e. e_id e = i) rows = Some old \<Longrightarrow> updated_entity i f rows = Some (old\<lparr>e_cols := f (e_cols old)\<rparr>)"
  by (induction rows) (auto simp: updated_entity_def split: if_splits)

lemma update_entity_undo:
  assumes "distinct (map e_id rows)" "find (\<lambda>e. e_id e = i) rows = Some old"
  shows "update_entity i (row_restore cols (e_cols old)) (update_entity i (row_set cols obj) rows) = rows"
  using assms
proof (induction rows)
  case Nil
  then show ?case by simp
next
  case (Cons r rows)
  show ?case
  proof (cases "e_id r = i")
    case True
    then have old: "old = r" using Cons.prems by simp
    have "i \<notin> e_id ` set rows" using Cons.prems True by auto
    then have "find (\<lambda>e. e_id e = i) rows = None"
      by (metis (mono_tags, lifting) find_None_iff imageI)
    then have "update_entity i f rows = rows" for f by (rule update_entity_absent)
    then show ?thesis using True old
      by (simp add: update_entity_def)
  next
    case False
    then show ?thesis using Cons by (simp add: update_entity_def)
  qed
qed

text \<open>
  For a change of an existing property the compensation does what is asked of it: when
  the status update fails and the compensating update goes through, every table is as
  before the call.
\<close>

lemma approve_update_rolled_back:
  assumes d: "distinct (map e_id (properties db))"
    and c: "find (\<lambda>c. pc_id c = changeId) (propertyPendingChanges db) = Some c"
    and st: "pc_status c = Pending \<or> pc_status c = NeedsRevision"
    and target: "pc_propertyId c = Some pid"
    and fl: "f_finalize fl" "\<not> f_rollback fl"
  shows "approvePendingChange db now fl changeId adminId applyAs merged = (approve_failed, db)"
proof (cases "find (\<lambda>e. e_id e = pid) (properties db)")
  case None
  then show ?thesis using c st target fl
    by (auto simp: approvePendingChange_def approve_property_def Let_def rollback_property_def
        update_entity_absent updated_entity_absent)
next
  case (Some old)
  then show ?thesis using c st target fl update_entity_undo[OF d Some]
    by (auto simp: approvePendingChange_def approve_property_def Let_def rollback_property_def
        updated_entity_present)
qed

subsection \<open>Terminal statuses\<close>

lemma ex_approved_db_changes:
  "map pc_id (propertyPendingChanges ex_approved_db) = [100] \<and>
   map pc_status (propertyPendingChanges ex_approved_db) = [Approved] \<and>
   map pc_proposerId (propertyPendingChanges ex_approved_db) = [7] \<and>
   map pc_isDraft (propertyPendingChanges ex_approved_db) = [False] \<and>
   map up_referencedByChangeId (uploads ex_approved_db) = [None, None]"
  by (simp add: ex_approved_db_def run_def step_def submitPendingChange_def submit_checks_def
      replay_check_def access_checks_def upload_check_def invalid_fields_def effective_key_def truthy_str_def ex_submit_def ex_pc_db_def ex_property_def
      ALLOWED_EMPLOYEE_FIELDS_def upload_ids_def is_live_def Let_def new_change_def
      approvePendingChange_def approve_property_def chosen_payload_def no_faults_def
      mark_approved_def updated_entity_def update_entity_def audit_log_def
      row_set_def property_columns_def property_defaults_def)

lemma ex_approved_db_rows:
  "\<exists>c. propertyPendingChanges ex_approved_db = [c] \<and> pc_id c = 100 \<and> pc_status c = Approved \<and>
       pc_proposerId c = 7 \<and> pc_isDraft c = False"
  using ex_approved_db_changes by (cases "propertyPendingChanges ex_approved_db") auto

lemma ex_approved_db_unreferenced: "\<not> referenced_by_upload ex_approved_db 100"
proof -
  have "map up_referencedByChangeId (uploads ex_approved_db) = [None, None]"
    using ex_approved_db_changes by simp
  then have "\<And>u. u \<in> set (uploads ex_approved_db) \<Longrightarrow> up_referencedByChangeId u = None"
    by (cases "uploads ex_approved_db"; cases "tl (uploads ex_approved_db)") auto
  then show ?thesis by (auto simp: referenced_by_upload_def list_ex_iff)
qed

text \<open>
  Claim C8. Nothing may move a change out of \<open>approved\<close> or \<open>rejected\<close>, or delete it.
  Only \<^verbatim>\<open>approvePendingChange\<close> looks at the status. On the approved change 100,
  \<^verbatim>\<open>rejectPendingChange\<close> answers success and stores \<open>rejected\<close>, \<^verbatim>\<open>requestChanges\<close>
  answers success and stores \<open>needs_revision\<close>, and the proposer's
  \<^verbatim>\<open>withdrawPendingChange\<close> deletes the row.
\<close>

theorem terminal_statuses_not_enforced:
  "map pc_status (propertyPendingChanges ex_approved_db) = [Approved] \<and>
   fst (rejectPendingChange ex_approved_db 3000 100 1 ''too late'') = Success \<and>
   map pc_status (propertyPendingChanges
        (snd (rejectPendingChange ex_approved_db 3000 100 1 ''too late''))) = [ChangeRejected] \<and>
   fst (requestChanges ex_approved_db 3000 100 1 ''please redo'') = Success \<and>
   map pc_status (propertyPendingChanges
        (snd (requestChanges ex_approved_db 3000 100 1 ''please redo''))) = [NeedsRevision] \<and>
   fst (withdrawPendingChange ex_approved_db 100 7 False) = Success \<and>
   propertyPendingChanges (snd (withdrawPendingChange ex_approved_db 100 7 False)) = []"
proof -
  from ex_approved_db_rows obtain c where c: "propertyPendingChanges ex_approved_db = [c]"
    "pc_id c = 100" "pc_status c = Approved" "pc_proposerId c = 7" by auto
  show ?thesis
    by (simp add: c rejectPendingChange_def requestChanges_def withdrawPendingChange_def
        review_set_def audit_log_def delete_changes_def ex_approved_db_unreferenced)
qed

text \<open>The guard of the approval itself: a change that is not pending or in revision is
  answered 400 and nothing is written.\<close>

lemma approve_refuses_processed:
  assumes "find (\<lambda>c. pc_id c = changeId) (propertyPendingChanges db) = Some c"
    and "pc_status c = Approved \<or> pc_status c = ChangeRejected \<or> pc_status c = Draft"
  shows "approvePendingChange db now fl changeId adminId applyAs merged =
           (Failure 400 ''Change already processed'', db)"
  using assms by (auto simp: approvePendingChange_def)

subsection \<open>What a submission writes\<close>

lemma checks_status:
  "submit_checks db i e body header = Some r \<Longrightarrow> pc_http_status r \<in> {200, 400, 403, 500}"
  by (auto simp: submit_checks_def replay_check_def access_checks_def upload_check_def
      split: option.splits if_splits)

lemma checks_never_create: "submit_checks db i e body header \<noteq> Some (ChangeCreated cid st ts)"
  using checks_status[of db i e body header "ChangeCreated cid st ts"] by auto

lemma conflict_never_creates: "conflict_response c \<noteq> ChangeCreated cid st ts"
  by (simp add: conflict_response_def)

lemma submit_created:
  assumes "submitPendingChange db now i e body header = (ChangeCreated cid st ts, db1)"
  shows "submit_checks db i e body header = None"
    and "sb_isDraft body \<or> find (is_live i e) (propertyPendingChanges db) = None"
    and "cid = pc_next_id db" "st = (if sb_isDraft body then Draft else Pending)" "ts = now"
    and "propertyPendingChanges db1 = propertyPendingChanges db @ [new_change db now i e body]"
    and "pc_next_id db1 = Suc (pc_next_id db)"
    and "propertyPendingChangesIdempotency db1 =
           propertyPendingChangesIdempotency db @
           (case effective_key body header of
              None \<Rightarrow> []
            | Some k \<Rightarrow> [\<lparr>ik_idempotencyKey = k, ik_changeId = pc_next_id db\<rparr>])"
    and "uploads db1 = mark_referenced (upload_ids body) (pc_next_id db) (uploads db)"
    and "properties db1 = properties db"
  using assms checks_never_create[of db i e body header cid st ts]
  unfolding submitPendingChange_def
  by (auto simp: Let_def new_change_def mark_referenced_def conflict_never_creates
      split: option.splits if_splits)

lemma submit_creates:
  assumes "submit_checks db i e body header = None"
    and "sb_isDraft body \<or> find (is_live i e) (propertyPendingChanges db) = None"
  shows "submitPendingChange db now i e body header =
     (ChangeCreated (pc_next_id db) (if sb_isDraft body then Draft else Pending) now,
      db\<lparr>propertyPendingChanges := propertyPendingChanges db @ [new_change db now i e body],
         pc_next_id := Suc (pc_next_id db),
         uploads := (if upload_ids body \<noteq> []
                     then mark_referenced (upload_ids body) (pc_next_id db) (uploads db)
                     else uploads db),
         propertyPendingChangesIdempotency :=
           (case effective_key body header of
              None \<Rightarrow> propertyPendingChangesIdempotency db
            | Some k \<Rightarrow> propertyPendingChangesIdempotency db @
                        [\<lparr>ik_idempotencyKey = k, ik_changeId = pc_next_id db\<rparr>])\<rparr>)"
  using assms
  by (cases "effective_key body header")
     (auto simp: submitPendingChange_def Let_def new_change_def)





subsection \<open>Uploads and their owners\<close>

lemma ex_upload_draft_fields:
  "sb_isDraft ex_upload_draft" "upload_ids ex_upload_draft = [31]"
  "effective_key ex_upload_draft None = None"
  by (simp_all add: ex_upload_draft_def ex_submit_def upload_ids_def effective_key_def
      truthy_str_def)

lemma draft_checks:
  assumes "propertyEmployeeAssignments db = propertyEmployeeAssignments ex_pc_db"
    and "properties db = properties ex_pc_db"
    and "map up_id (uploads db) = [31, 32]" "map up_ownerId (uploads db) = [7, 8]"
  shows "submit_checks db 21 7 ex_upload_draft None = None"
proof -
  from assms(3,4) obtain a b where ab: "uploads db = [a, b]" "up_id a = 31" "up_id b = 32"
    "up_ownerId a = 7" "up_ownerId b = 8"
    by (cases "uploads db"; cases "tl (uploads db)") auto
  show ?thesis
    by (simp add: submit_checks_def replay_check_def access_checks_def upload_check_def
          invalid_fields_def ex_upload_draft_fields assms(1,2) ab)
       (simp add: ex_upload_draft_def ex_submit_def ex_pc_db_def ex_property_def
          ALLOWED_EMPLOYEE_FIELDS_def row_set_def property_columns_def property_defaults_def)
qed

text \<open>
  Claim C9, as stated, fails in its last part: an upload can be referenced by more than
  one pending change over a sequence of submissions. Employee 7 submits two drafts
  that both list upload 31; both are created (changes 100 and 101), and the upload's
  back-reference moves from 100 to 101.
\<close>

theorem upload_referenced_twice:
  "fst (submitPendingChange ex_pc_db 1000 21 7 ex_upload_draft None) = ChangeCreated 100 Draft 1000 \<and>
   map up_referencedByChangeId
     (uploads (snd (submitPendingChange ex_pc_db 1000 21 7 ex_upload_draft None))) =
     [Some 100, None] \<and>
   fst (submitPendingChange (snd (submitPendingChange ex_pc_db 1000 21 7 ex_upload_draft None))
          2000 21 7 ex_upload_draft None) = ChangeCreated 101 Draft 2000 \<and>
   map up_referencedByChangeId
     (uploads (snd (submitPendingChange
                      (snd (submitPendingChange ex_pc_db 1000 21 7 ex_upload_draft None))
                      2000 21 7 ex_upload_draft None))) = [Some 101, None] \<and>
   map pc_id
     (propertyPendingChanges
        (snd (submitPendingChange
                (snd (submitPendingChange ex_pc_db 1000 21 7 ex_upload_draft None))
                2000 21 7 ex_upload_draft None))) = [100, 101]"
proof -
  define db1 where "db1 = snd (submitPendingChange ex_pc_db 1000 21 7 ex_upload_draft None)"
  define db2 where "db2 = snd (submitPendingChange db1 2000 21 7 ex_upload_draft None)"
  have c0: "submit_checks ex_pc_db 21 7 ex_upload_draft None = None"
    by (rule draft_checks) (simp_all add: ex_pc_db_def)
  note s1 = submit_creates[OF c0 disjI1[OF ex_upload_draft_fields(1)], of 1000]
  have r1: "fst (submitPendingChange ex_pc_db 1000 21 7 ex_upload_draft None) =
      ChangeCreated 100 Draft 1000"
    by (simp add: s1 ex_upload_draft_fields) (simp add: ex_pc_db_def)
  have db1: "map up_referencedByChangeId (uploads db1) = [Some 100, None]"
    "map up_id (uploads db1) = [31, 32]" "map up_ownerId (uploads db1) = [7, 8]"
    "propertyEmployeeAssignments db1 = propertyEmployeeAssignments ex_pc_db"
    "properties db1 = properties ex_pc_db" "pc_next_id db1 = 101"
    "map pc_id (propertyPendingChanges db1) = [100]"
    unfolding db1_def
    by (simp_all add: s1 ex_upload_draft_fields mark_referenced_def new_change_def)
       (simp_all add: ex_pc_db_def)
  have c1: "submit_checks db1 21 7 ex_upload_draft None = None"
    using db1(4,5,2,3) by (rule draft_checks)
  note s2 = submit_creates[OF c1 disjI1[OF ex_upload_draft_fields(1)], of 2000]
  obtain a b where ab: "uploads db1 = [a, b]" "up_id a = 31" "up_id b = 32"
    using db1(2) by (cases "uploads db1"; cases "tl (uploads db1)") auto
  have refb: "up_referencedByChangeId b = None" using db1(1) by (simp add: ab)
  have r2: "fst (submitPendingChange db1 2000 21 7 ex_upload_draft None) =
      ChangeCreated 101 Draft 2000"
    by (simp add: s2 ex_upload_draft_fields db1(6))
  have u2: "map up_referencedByChangeId (uploads db2) = [Some 101, None]"
    unfolding db2_def
    by (simp add: s2 ex_upload_draft_fields mark_referenced_def ab refb db1(6))
  have p2: "map pc_id (propertyPendingChanges db2) = [100, 101]"
    unfolding db2_def by (simp add: s2 db1(6,7) new_change_def)
  show ?thesis
    using r1 db1(1) r2 u2 p2 unfolding db2_def db1_def by simp
qed

lemma owned_records_short:
  assumes d: "distinct (map up_id ups)"
    and bad: "u \<in> set ids" "find (\<lambda>r. up_id r = u \<and> up_ownerId r = e) ups = None"
  shows "length (filter (\<lambda>r. up_id r \<in> set ids \<and> up_ownerId r = e) ups) < length ids"
proof -
  let ?recs = "filter (\<lambda>r. up_id r \<in> set ids \<and> up_ownerId r = e) ups"
  have dr: "distinct (map up_id ?recs)" using d by (simp add: distinct_map_filter)
  have sub: "set (map up_id ?recs) \<subseteq> set ids - {u}"
    using bad(2) by (auto simp: find_None_iff)
  have "length ?recs = card (set (map up_id ?recs))"
    using distinct_card[OF dr] by simp
  also have "\<dots> \<le> card (set ids - {u})" using sub by (simp add: card_mono)
  also have "\<dots> < card (set ids)" using bad(1) by (intro card_Diff1_less) simp_all
  also have "\<dots> \<le> length ids" by (rule card_length)
  finally show ?thesis .
qed

text \<open>
  Claim C9, amended. A submission that lists an upload id which does not exist or is
  owned by another actor creates no row and changes nothing, and when the replay and
  access checks before it pass it is answered 400 \<open>Invalid upload references\<close> (the
  table's primary key makes the count of owned rows fall short). A submission that
  succeeds makes the new change the back-reference of every listed upload, whatever
  the upload referenced before, and leaves the other uploads' references alone.
\<close>

theorem upload_ownership_enforced:
  assumes d: "distinct (map up_id (uploads db))"
    and u: "u \<in> set (upload_ids body)"
    and bad: "find (\<lambda>r. up_id r = u \<and> up_ownerId r = e) (uploads db) = None"
    and ok: "submitPendingChange db' now' i' e' body' header' = (ChangeCreated cid st ts, db1)"
  shows "snd (submitPendingChange db now i e body header) = db \<and>
         pc_http_status (fst (submitPendingChange db now i e body header)) \<noteq> 201 \<and>
         (if replay_check db body header = None \<and> access_checks db i e body = None
          then fst (submitPendingChange db now i e body header) =
                 Failure 400 ''Invalid upload references''
          else True) \<and>
         map up_referencedByChangeId (uploads db1) =
           map (\<lambda>r. if up_id r \<in> set (upload_ids body') then Some cid
                     else up_referencedByChangeId r) (uploads db')"
proof -
  have ne: "upload_ids body \<noteq> []" using u by auto
  have short: "length (filter (\<lambda>r. up_id r \<in> set (upload_ids body) \<and> up_ownerId r = e) (uploads db))
      \<noteq> length (upload_ids body)"
    using owned_records_short[OF d u bad] by simp
  have up: "upload_check db e body = Some (Failure 400 ''Invalid upload references'')"
    using ne short by (simp add: upload_check_def)
  obtain r where r: "submit_checks db i e body header = Some r"
    by (cases "replay_check db body header"; cases "access_checks db i e body")
       (simp_all add: submit_checks_def up)
  have refs: "map up_referencedByChangeId (uploads db1) =
           map (\<lambda>r. if up_id r \<in> set (upload_ids body') then Some cid
                     else up_referencedByChangeId r) (uploads db')"
    using submit_created(3,9)[OF ok] by (auto simp: mark_referenced_def)
  have st: "pc_http_status r \<noteq> 201" using checks_status[OF r] by auto
  have first: "replay_check db body header = None \<Longrightarrow> access_checks db i e body = None \<Longrightarrow>
      r = Failure 400 ''Invalid upload references''"
    using r by (simp add: submit_checks_def up)
  show ?thesis using refs st first by (auto simp: submitPendingChange_def r)
qed

lemma ex_early_checks:
  assumes "propertyEmployeeAssignments db = propertyEmployeeAssignments ex_pc_db"
    and "properties db = properties ex_pc_db"
    and "sb_proposed_payload body = sb_proposed_payload ex_submit"
  shows "access_checks db 21 7 body = None"
  using assms
  by (simp add: access_checks_def invalid_fields_def ex_submit_def ex_pc_db_def ex_property_def
      ALLOWED_EMPLOYEE_FIELDS_def row_set_def property_columns_def property_defaults_def)

theorem upload_ownership_enforced_witness:
  "distinct (map up_id (uploads ex_pc_db)) \<and>
   32 \<in> set (upload_ids ex_foreign_upload) \<and>
   find (\<lambda>r. up_id r = 32 \<and> up_ownerId r = 7) (uploads ex_pc_db) = None \<and>
   submitPendingChange ex_pc_db 1000 21 7 ex_foreign_upload None =
     (Failure 400 ''Invalid upload references'', ex_pc_db) \<and>
   fst (submitPendingChange ex_pc_db 1000 21 7 ex_upload_draft None) =
     ChangeCreated 100 Draft 1000 \<and>
   map up_referencedByChangeId
     (uploads (snd (submitPendingChange ex_pc_db 1000 21 7 ex_upload_draft None))) =
     [Some 100, None]"
proof -
  have d: "distinct (map up_id (uploads ex_pc_db))" by (simp add: ex_pc_db_def)
  have u: "32 \<in> set (upload_ids ex_foreign_upload)"
    by (simp add: ex_foreign_upload_def upload_ids_def)
  have bad: "find (\<lambda>r. up_id r = 32 \<and> up_ownerId r = 7) (uploads ex_pc_db) = None"
    by (simp add: ex_pc_db_def)
  have c0: "submit_checks ex_pc_db 21 7 ex_upload_draft None = None"
    by (rule draft_checks) (simp_all add: ex_pc_db_def)
  have r1: "fst (submitPendingChange ex_pc_db 1000 21 7 ex_upload_draft None) =
      ChangeCreated 100 Draft 1000"
    by (simp add: submit_creates[OF c0 disjI1[OF ex_upload_draft_fields(1)]] ex_upload_draft_fields)
       (simp add: ex_pc_db_def)
  then have ok: "submitPendingChange ex_pc_db 1000 21 7 ex_upload_draft None =
      (ChangeCreated 100 Draft 1000, snd (submitPendingChange ex_pc_db 1000 21 7 ex_upload_draft None))"
    by (metis prod.collapse)
  have rp: "replay_check ex_pc_db ex_foreign_upload None = None"
    by (simp add: replay_check_def effective_key_def truthy_str_def ex_foreign_upload_def
        ex_submit_def)
  have ac: "access_checks ex_pc_db 21 7 ex_foreign_upload = None"
    by (rule ex_early_checks) (simp_all add: ex_foreign_upload_def)
  have refs0: "map (\<lambda>r. if up_id r = 31 then Some 100 else up_referencedByChangeId r)
      (uploads ex_pc_db) = [Some (100::nat), None]"
    by (simp add: ex_pc_db_def)
  from upload_ownership_enforced[OF d u bad ok, of 1000 21 None]
  show ?thesis
    using d u bad r1 rp ac refs0
    by (simp add: ex_upload_draft_fields prod_eq_iff)
qed

subsection \<open>One live pending change\<close>












lemma rollback_property_keeps [simp]:
  "propertyPendingChanges (rollback_property db fl a b c) = propertyPendingChanges db"
  "pc_next_id (rollback_property db fl a b c) = pc_next_id db"
  by (auto simp: rollback_property_def split: option.splits)

lemma rollback_banner_keeps [simp]:
  "propertyPendingChanges (rollback_banner db fl a b c) = propertyPendingChanges db"
  "pc_next_id (rollback_banner db fl a b c) = pc_next_id db"
  by (auto simp: rollback_banner_def split: option.splits)

lemma audit_log_keeps [simp]:
  "propertyPendingChanges (audit_log a s db) = propertyPendingChanges db"
  "pc_next_id (audit_log a s db) = pc_next_id db"
  by (simp_all add: audit_log_def)





























subsection \<open>Idempotent submission\<close>









lemma rollback_property_ledger [simp]:
  "propertyPendingChangesIdempotency (rollback_property db fl a b c) =
     propertyPendingChangesIdempotency db"
  by (auto simp: rollback_property_def split: option.splits)

lemma rollback_banner_ledger [simp]:
  "propertyPendingChangesIdempotency (rollback_banner db fl a b c) =
     propertyPendingChangesIdempotency db"
  by (auto simp: rollback_banner_def split: option.splits)

lemma audit_log_ledger [simp]:
  "propertyPendingChangesIdempotency (audit_log a s db) = propertyPendingChangesIdempotency db"
  by (simp add: audit_log_def)
























end
